theory Spec2Isabelle
  imports Main "HOL-Library.Multiset"
begin

section \<open>The entity store of \<open>src/services/dataManager.ts\<close>\<close>

text \<open>
  The class \<open>DataManager\<close> keeps a business profile, a list of dated financial records and
  a list of key performance indicators in memory and mirrors them into the browser's
  \<open>localStorage\<close>. The embedding follows the source method by method.

  Conventions of the embedding.
  \<^item> A JavaScript \<open>number\<close> is modelled as an \<open>int\<close>: the amounts, head counts and
    timestamps the store holds. Fractions, \<open>NaN\<close> and magnitudes beyond the exactly
    representable integers are outside the model.
  \<^item> A \<open>Date\<close> object is the \<open>int\<close> of its millisecond time value.
  \<^item> A property that may be missing (\<open>Partial<T>\<close>, \<open>date?: string\<close>) is an \<open>option\<close>;
    \<open>None\<close> is the absent property.
  \<^item> TypeScript interfaces become records. The interfaces share field names
    (\<open>revenue\<close>, \<open>cashFlow\<close>) and use names HOL has taken (\<open>id\<close>, \<open>value\<close>, \<open>unit\<close>),
    so every field carries the prefix of its interface: \<open>bd_\<close> for \<open>BusinessData\<close>,
    \<open>fr_\<close> for \<open>FinancialRecord\<close>, \<open>kpi_\<close> for \<open>KPIData\<close>.
  \<^item> Readings of the clock and of the random generator are inputs, gathered in \<open>env\<close>.
\<close>

subsection \<open>Interfaces\<close>

record BusinessData =
  bd_id :: string
  bd_companyName :: string
  bd_industry :: string
  bd_employees :: int
  bd_revenue :: int
  bd_costs :: int
  bd_assets :: int
  bd_liabilities :: int
  bd_cashFlow :: int
  bd_createdAt :: int
  bd_updatedAt :: int

text \<open>\<open>Partial<BusinessData>\<close>, the argument of \<open>setBusinessData\<close>.\<close>

record BusinessDataPartial =
  p_id :: "string option"
  p_companyName :: "string option"
  p_industry :: "string option"
  p_employees :: "int option"
  p_revenue :: "int option"
  p_costs :: "int option"
  p_assets :: "int option"
  p_liabilities :: "int option"
  p_cashFlow :: "int option"
  p_createdAt :: "int option"
  p_updatedAt :: "int option"

record FinancialRecord =
  fr_date :: string
  fr_revenue :: int
  fr_expenses :: int
  fr_profit :: int
  fr_cashFlow :: int

text \<open>\<open>Omit<FinancialRecord, 'date'> & { date?: string }\<close>, the argument of
  \<open>addFinancialRecord\<close>.\<close>

record FinancialRecordInput =
  in_date :: "string option"
  in_revenue :: int
  in_expenses :: int
  in_profit :: int
  in_cashFlow :: int

text \<open>\<open>Partial<FinancialRecord>\<close>, the argument of \<open>updateFinancialRecord\<close>.\<close>

record FinancialRecordPartial =
  fu_date :: "string option"
  fu_revenue :: "int option"
  fu_expenses :: "int option"
  fu_profit :: "int option"
  fu_cashFlow :: "int option"

text \<open>
  \<open>KPIData\<close>. The interface declares \<open>category\<close> as a union of four string literals; the
  spreadsheet import stores whatever text the sheet holds through an unchecked cast, so
  the field is a \<open>string\<close> here.
\<close>

record KPIData =
  kpi_metric :: string
  kpi_value :: int
  kpi_target :: int
  kpi_unit :: string
  kpi_category :: string

text \<open>\<open>Partial<KPIData>\<close>, the argument of \<open>updateKPI\<close>.\<close>

record KPIDataPartial =
  ku_metric :: "string option"
  ku_value :: "int option"
  ku_target :: "int option"
  ku_unit :: "string option"
  ku_category :: "string option"

text \<open>The object \<open>getFinancialMetrics\<close> returns.\<close>

record FinancialMetrics =
  fm_revenue :: int
  fm_costs :: int
  fm_grossProfit :: int
  fm_netProfit :: int
  fm_assets :: int
  fm_liabilities :: int
  fm_equity :: int
  fm_cashFlow :: int
  fm_expenses :: int

subsection \<open>The environment\<close>

text \<open>
  \<open>env_now\<close> is the value of \<open>new Date()\<close> in \<open>setBusinessData\<close>; \<open>env_idClock\<close> is
  \<open>Date.now()\<close> and \<open>env_random\<close> is \<open>Math.random().toString(36).substr(2)\<close> in
  \<open>generateId\<close>; \<open>env_today\<close> is \<open>new Date().toISOString().split('T')[0]\<close> in
  \<open>addFinancialRecord\<close>; \<open>env_getTime s\<close> is \<open>new Date(s).getTime()\<close>, with \<open>None\<close> for
  the \<open>NaN\<close> of a string the engine does not parse as a date.
\<close>

record env =
  env_now :: int
  env_idClock :: int
  env_random :: string
  env_today :: string
  env_getTime :: "string \<Rightarrow> int option"

subsection \<open>Durable storage\<close>

text \<open>
  \<open>localStorage\<close> holds one item per entity kind under the keys
  \<open>bizoptima_business_data\<close>, \<open>bizoptima_financial_records\<close> and \<open>bizoptima_kpi_data\<close>.
  An item is the JSON text of a snapshot; the model keeps the snapshot it denotes, and
  \<open>None\<close> for a key that was never written, so \<open>JSON.parse\<close> of an item always
  succeeds here. \<open>setItem\<close> throws when the medium refuses the write (quota exceeded);
  \<open>st_writable\<close> says whether it accepts writes.
\<close>

record storage =
  st_business :: "BusinessData option"
  st_records :: "FinancialRecord list option"
  st_kpis :: "KPIData list option"
  st_writable :: bool

datatype item =
  BUSINESS_DATA_KEY BusinessData
  | FINANCIAL_RECORDS_KEY "FinancialRecord list"
  | KPI_DATA_KEY "KPIData list"

definition setItem :: "item \<Rightarrow> storage \<Rightarrow> storage option" where
  "setItem it st =
     (if \<not> st_writable st then None
      else Some (case it of
             BUSINESS_DATA_KEY b \<Rightarrow> st\<lparr>st_business := Some b\<rparr>
           | FINANCIAL_RECORDS_KEY rs \<Rightarrow> st\<lparr>st_records := Some rs\<rparr>
           | KPI_DATA_KEY ks \<Rightarrow> st\<lparr>st_kpis := Some ks\<rparr>))"

subsection \<open>The store\<close>

record DataManager =
  businessData :: "BusinessData option"
  financialRecords :: "FinancialRecord list"
  kpiData :: "KPIData list"
  localStorage :: storage

text \<open>
  \<open>saveToStorage\<close>: the profile is written only when there is one; the two lists are
  always written. The \<open>try\<close> block ends at the first \<open>setItem\<close> that throws, and the
  writes made before it stay.
\<close>

definition saveToStorage :: "DataManager \<Rightarrow> DataManager" where
  "saveToStorage dm =
     (case (case businessData dm of
              None \<Rightarrow> Some (localStorage dm)
            | Some b \<Rightarrow> setItem (BUSINESS_DATA_KEY b) (localStorage dm)) of
        None \<Rightarrow> dm
      | Some st1 \<Rightarrow>
          (case setItem (FINANCIAL_RECORDS_KEY (financialRecords dm)) st1 of
             None \<Rightarrow> dm\<lparr>localStorage := st1\<rparr>
           | Some st2 \<Rightarrow>
               (case setItem (KPI_DATA_KEY (kpiData dm)) st2 of
                  None \<Rightarrow> dm\<lparr>localStorage := st2\<rparr>
                | Some st3 \<Rightarrow> dm\<lparr>localStorage := st3\<rparr>)))"

text \<open>
  \<open>loadFromStorage\<close> assigns each field whose item is present. The constructor runs it
  on the initial fields \<open>null\<close>, \<open>[]\<close>, \<open>[]\<close>.
\<close>

definition loadFromStorage :: "DataManager \<Rightarrow> DataManager" where
  "loadFromStorage dm =
     (let st = localStorage dm;
          dm1 = (case st_business st of None \<Rightarrow> dm | Some b \<Rightarrow> dm\<lparr>businessData := Some b\<rparr>);
          dm2 = (case st_records st of None \<Rightarrow> dm1 | Some rs \<Rightarrow> dm1\<lparr>financialRecords := rs\<rparr>)
      in (case st_kpis st of None \<Rightarrow> dm2 | Some ks \<Rightarrow> dm2\<lparr>kpiData := ks\<rparr>))"

definition newDataManager :: "storage \<Rightarrow> DataManager" where
  "newDataManager st =
     loadFromStorage \<lparr>businessData = None, financialRecords = [], kpiData = [],
                      localStorage = st\<rparr>"

subsection \<open>JavaScript's \<open>||\<close> on optional values\<close>

text \<open>
  \<open>a || d\<close> yields \<open>d\<close> when \<open>a\<close> is falsy: \<open>undefined\<close>, the empty string, the number 0.
  A \<open>Date\<close> object is always truthy.
\<close>

definition orString :: "string option \<Rightarrow> string \<Rightarrow> string" where
  "orString a d = (case a of None \<Rightarrow> d | Some s \<Rightarrow> if s = [] then d else s)"

definition orNumber :: "int option \<Rightarrow> int \<Rightarrow> int" where
  "orNumber a d = (case a of None \<Rightarrow> d | Some n \<Rightarrow> if n = 0 then d else n)"

definition orDate :: "int option \<Rightarrow> int \<Rightarrow> int" where
  "orDate a d = (case a of None \<Rightarrow> d | Some t \<Rightarrow> t)"

subsection \<open>Numbers as text\<close>

text \<open>
  \<open>Number.prototype.toString(radix)\<close> on an integer: the digits \<open>0-9a-z\<close>, most
  significant first, with a leading minus sign for a negative number. Radix 10 is what a
  template literal produces.
\<close>

definition digitChar :: "nat \<Rightarrow> char" where
  "digitChar d = ''0123456789abcdefghijklmnopqrstuvwxyz'' ! d"

fun radixString :: "nat \<Rightarrow> nat \<Rightarrow> string" where
  "radixString b n =
     (if b < 2 \<or> n < b then [digitChar n]
      else radixString b (n div b) @ [digitChar (n mod b)])"

declare radixString.simps [simp del]

definition toStringRadix :: "nat \<Rightarrow> int \<Rightarrow> string" where
  "toStringRadix b i =
     (if i < 0 then CHR ''-'' # radixString b (nat (- i)) else radixString b (nat i))"

definition numToString :: "int \<Rightarrow> string" where
  "numToString i = toStringRadix 10 i"

subsection \<open>The profile\<close>

definition generateId :: "env \<Rightarrow> string" where
  "generateId e = toStringRadix 36 (env_idClock e) @ env_random e"

definition setBusinessData :: "env \<Rightarrow> BusinessDataPartial \<Rightarrow> DataManager \<Rightarrow> DataManager" where
  "setBusinessData e data dm =
     (let now = env_now e in
      saveToStorage (dm\<lparr>businessData := Some
        \<lparr>bd_id = orString (p_id data) (generateId e),
         bd_companyName = orString (p_companyName data) [],
         bd_industry = orString (p_industry data) [],
         bd_employees = orNumber (p_employees data) 0,
         bd_revenue = orNumber (p_revenue data) 0,
         bd_costs = orNumber (p_costs data) 0,
         bd_assets = orNumber (p_assets data) 0,
         bd_liabilities = orNumber (p_liabilities data) 0,
         bd_cashFlow = orNumber (p_cashFlow data) 0,
         bd_createdAt = orDate (p_createdAt data) now,
         bd_updatedAt = now\<rparr>\<rparr>))"

definition getBusinessData :: "DataManager \<Rightarrow> BusinessData option" where
  "getBusinessData dm = businessData dm"

definition getFinancialRecords :: "DataManager \<Rightarrow> FinancialRecord list" where
  "getFinancialRecords dm = financialRecords dm"

definition getKPIData :: "DataManager \<Rightarrow> KPIData list" where
  "getKPIData dm = kpiData dm"

definition clearAllData :: "DataManager \<Rightarrow> DataManager" where
  "clearAllData dm =
     saveToStorage (dm\<lparr>businessData := None, financialRecords := [], kpiData := []\<rparr>)"

definition getFinancialMetrics :: "DataManager \<Rightarrow> FinancialMetrics option" where
  "getFinancialMetrics dm =
     (case businessData dm of
        None \<Rightarrow> None
      | Some b \<Rightarrow>
          (let grossProfit = bd_revenue b - bd_costs b;
               netProfit = grossProfit;
               equity = bd_assets b - bd_liabilities b
           in Some \<lparr>fm_revenue = bd_revenue b,
                    fm_costs = bd_costs b,
                    fm_grossProfit = grossProfit,
                    fm_netProfit = netProfit,
                    fm_assets = bd_assets b,
                    fm_liabilities = bd_liabilities b,
                    fm_equity = equity,
                    fm_cashFlow = bd_cashFlow b,
                    fm_expenses = bd_costs b\<rparr>))"

text \<open>An empty partial profile, and the fixtures the examples below run on.\<close>

definition emptyPartial :: BusinessDataPartial where
  "emptyPartial =
     \<lparr>p_id = None, p_companyName = None, p_industry = None, p_employees = None,
      p_revenue = None, p_costs = None, p_assets = None, p_liabilities = None,
      p_cashFlow = None, p_createdAt = None, p_updatedAt = None\<rparr>"

definition emptyStorage :: storage where
  "emptyStorage = \<lparr>st_business = None, st_records = None, st_kpis = None, st_writable = True\<rparr>"

subsection \<open>Financial records\<close>

text \<open>
  \<open>Array.prototype.sort(cmp)\<close> is a stable sort: \<open>x\<close> goes before \<open>y\<close> when
  \<open>cmp(x, y) < 0\<close>, and elements that compare equal keep their order. Insertion from the
  right computes that order. The comparator of \<open>addFinancialRecord\<close> subtracts the time
  values of the two dates; when one of them is \<open>NaN\<close> the difference is \<open>NaN\<close>, which
  \<open>sort\<close> reads as 0. With an unparsable date in the array the comparator is
  inconsistent and the language leaves the resulting order to the engine, so the
  statements about order below are made for arrays whose dates all parse.
\<close>

fun insertSorted :: "('a \<Rightarrow> 'a \<Rightarrow> int) \<Rightarrow> 'a \<Rightarrow> 'a list \<Rightarrow> 'a list" where
  "insertSorted cmp x [] = [x]"
| "insertSorted cmp x (y # ys) =
     (if cmp x y \<le> 0 then x # y # ys else y # insertSorted cmp x ys)"

definition arraySort :: "('a \<Rightarrow> 'a \<Rightarrow> int) \<Rightarrow> 'a list \<Rightarrow> 'a list" where
  "arraySort cmp xs = foldr (insertSorted cmp) xs []"

definition compareByDate :: "env \<Rightarrow> FinancialRecord \<Rightarrow> FinancialRecord \<Rightarrow> int" where
  "compareByDate e a b =
     (case env_getTime e (fr_date a) of
        None \<Rightarrow> 0
      | Some ta \<Rightarrow> (case env_getTime e (fr_date b) of None \<Rightarrow> 0 | Some tb \<Rightarrow> ta - tb))"

definition addFinancialRecord :: "env \<Rightarrow> FinancialRecordInput \<Rightarrow> DataManager \<Rightarrow> DataManager" where
  "addFinancialRecord e record dm =
     (let newRecord =
            \<lparr>fr_date = orString (in_date record) (env_today e),
             fr_revenue = in_revenue record,
             fr_expenses = in_expenses record,
             fr_profit = in_profit record,
             fr_cashFlow = in_cashFlow record\<rparr>;
          kept = filter (\<lambda>r. fr_date r \<noteq> fr_date newRecord) (financialRecords dm);
          pushed = kept @ [newRecord]
      in saveToStorage (dm\<lparr>financialRecords := arraySort (compareByDate e) pushed\<rparr>))"

fun findIndex :: "('a \<Rightarrow> bool) \<Rightarrow> 'a list \<Rightarrow> nat option" where
  "findIndex P [] = None"
| "findIndex P (x # xs) = (if P x then Some 0 else map_option Suc (findIndex P xs))"

text \<open>The spread \<open>{ ...old, ...updates }\<close>: a property present in \<open>updates\<close> wins.\<close>

definition mergeRecord :: "FinancialRecord \<Rightarrow> FinancialRecordPartial \<Rightarrow> FinancialRecord" where
  "mergeRecord old updates =
     \<lparr>fr_date = (case fu_date updates of None \<Rightarrow> fr_date old | Some d \<Rightarrow> d),
      fr_revenue = (case fu_revenue updates of None \<Rightarrow> fr_revenue old | Some n \<Rightarrow> n),
      fr_expenses = (case fu_expenses updates of None \<Rightarrow> fr_expenses old | Some n \<Rightarrow> n),
      fr_profit = (case fu_profit updates of None \<Rightarrow> fr_profit old | Some n \<Rightarrow> n),
      fr_cashFlow = (case fu_cashFlow updates of None \<Rightarrow> fr_cashFlow old | Some n \<Rightarrow> n)\<rparr>"

definition updateFinancialRecord ::
    "string \<Rightarrow> FinancialRecordPartial \<Rightarrow> DataManager \<Rightarrow> DataManager" where
  "updateFinancialRecord date updates dm =
     (case findIndex (\<lambda>r. fr_date r = date) (financialRecords dm) of
        None \<Rightarrow> dm
      | Some index \<Rightarrow>
          saveToStorage (dm\<lparr>financialRecords :=
            (financialRecords dm)[index := mergeRecord (financialRecords dm ! index) updates]\<rparr>))"

definition deleteFinancialRecord :: "string \<Rightarrow> DataManager \<Rightarrow> DataManager" where
  "deleteFinancialRecord date dm =
     saveToStorage (dm\<lparr>financialRecords := filter (\<lambda>r. fr_date r \<noteq> date) (financialRecords dm)\<rparr>)"

text \<open>
  The two properties the record collection is meant to have: no date occurs twice, and
  the dates parse and ascend in time.
\<close>

definition datesParse :: "env \<Rightarrow> FinancialRecord list \<Rightarrow> bool" where
  "datesParse e rs = list_all (\<lambda>r. env_getTime e (fr_date r) \<noteq> None) rs"

definition recordTime :: "env \<Rightarrow> FinancialRecord \<Rightarrow> int" where
  "recordTime e r = the (env_getTime e (fr_date r))"

definition ascendingByDate :: "env \<Rightarrow> FinancialRecord list \<Rightarrow> bool" where
  "ascendingByDate e rs = (datesParse e rs \<and> sorted (map (recordTime e) rs))"

definition uniqueDates :: "FinancialRecord list \<Rightarrow> bool" where
  "uniqueDates rs = distinct (map fr_date rs)"

subsection \<open>Indicators\<close>

definition setKPIData :: "KPIData list \<Rightarrow> DataManager \<Rightarrow> DataManager" where
  "setKPIData kpis dm = saveToStorage (dm\<lparr>kpiData := kpis\<rparr>)"

definition addKPI :: "KPIData \<Rightarrow> DataManager \<Rightarrow> DataManager" where
  "addKPI kpi dm =
     saveToStorage
       (dm\<lparr>kpiData := filter (\<lambda>k. kpi_metric k \<noteq> kpi_metric kpi) (kpiData dm) @ [kpi]\<rparr>)"

definition mergeKPI :: "KPIData \<Rightarrow> KPIDataPartial \<Rightarrow> KPIData" where
  "mergeKPI old updates =
     \<lparr>kpi_metric = (case ku_metric updates of None \<Rightarrow> kpi_metric old | Some m \<Rightarrow> m),
      kpi_value = (case ku_value updates of None \<Rightarrow> kpi_value old | Some n \<Rightarrow> n),
      kpi_target = (case ku_target updates of None \<Rightarrow> kpi_target old | Some n \<Rightarrow> n),
      kpi_unit = (case ku_unit updates of None \<Rightarrow> kpi_unit old | Some u \<Rightarrow> u),
      kpi_category = (case ku_category updates of None \<Rightarrow> kpi_category old | Some c \<Rightarrow> c)\<rparr>"

definition updateKPI :: "string \<Rightarrow> KPIDataPartial \<Rightarrow> DataManager \<Rightarrow> DataManager" where
  "updateKPI metric updates dm =
     (case findIndex (\<lambda>k. kpi_metric k = metric) (kpiData dm) of
        None \<Rightarrow> dm
      | Some index \<Rightarrow>
          saveToStorage (dm\<lparr>kpiData :=
            (kpiData dm)[index := mergeKPI (kpiData dm ! index) updates]\<rparr>))"

definition deleteKPI :: "string \<Rightarrow> DataManager \<Rightarrow> DataManager" where
  "deleteKPI metric dm =
     saveToStorage (dm\<lparr>kpiData := filter (\<lambda>k. kpi_metric k \<noteq> metric) (kpiData dm)\<rparr>)"

definition uniqueMetrics :: "KPIData list \<Rightarrow> bool" where
  "uniqueMetrics ks = distinct (map kpi_metric ks)"

subsection \<open>String operations of the CSV adapter\<close>

text \<open>
  A \<open>char\<close> stands for a code unit below 256. \<open>String.prototype.trim\<close> removes white
  space and line terminators at both ends; in this range they are TAB, LF, VT, FF, CR,
  SPACE and NBSP.
\<close>

definition isWhiteSpace :: "char \<Rightarrow> bool" where
  "isWhiteSpace c =
     (c = CHR 0x09 \<or> c = CHR 0x0A \<or> c = CHR 0x0B \<or> c = CHR 0x0C \<or> c = CHR 0x0D
      \<or> c = CHR 0x20 \<or> c = CHR 0xA0)"

definition trim :: "string \<Rightarrow> string" where
  "trim s = rev (dropWhile isWhiteSpace (rev (dropWhile isWhiteSpace s)))"

text \<open>\<open>s.split(c)\<close> for a separator of one character: never an empty array.\<close>

fun splitOn :: "char \<Rightarrow> string \<Rightarrow> string list" where
  "splitOn c [] = [[]]"
| "splitOn c (x # xs) =
     (if x = c then [] # splitOn c xs
      else (case splitOn c xs of [] \<Rightarrow> [[x]] | y # ys \<Rightarrow> (x # y) # ys))"

fun joinWith :: "string \<Rightarrow> string list \<Rightarrow> string" where
  "joinWith sep [] = []"
| "joinWith sep [x] = x"
| "joinWith sep (x # y # ys) = x @ sep @ joinWith sep (y # ys)"

text \<open>\<open>.replace(/"/g, '')\<close>\<close>

definition stripQuotes :: "string \<Rightarrow> string" where
  "stripQuotes s = filter (\<lambda>c. c \<noteq> CHR 0x22) s"

text \<open>
  \<open>Number(s)\<close> on a string. White space at both ends is dropped. The empty string is
  0. A string \<open>0x\<close>, \<open>0o\<close> or \<open>0b\<close> (in either case) followed by digits of that radix is
  their value; such a literal takes no sign. Otherwise the string is an optional sign
  followed by decimal digits with an optional point and an optional exponent
  (\<open>12\<close>, \<open>12.\<close>, \<open>.5\<close>, \<open>1.5e3\<close>, \<open>1e-2\<close>), with at least one digit before the
  exponent. Anything else is \<open>NaN\<close>, written \<open>None\<close>.

  The numbers of the model are the integers. A decimal literal whose value is an integer
  gives that integer (\<open>100.00\<close> is 100, \<open>1e3\<close> is 1000, \<open>1.5e1\<close> is 15). A literal
  whose value is not an integer, and \<open>Infinity\<close>, denote numbers the model does not
  have; they are answered with \<open>None\<close> as well.
\<close>

definition isDigit :: "char \<Rightarrow> bool" where
  "isDigit c = (48 \<le> (of_char c :: nat) \<and> (of_char c :: nat) \<le> 57)"

definition digitValue :: "char \<Rightarrow> nat" where
  "digitValue c = of_char c - 48"

fun parseDigits :: "nat \<Rightarrow> string \<Rightarrow> nat option" where
  "parseDigits acc [] = Some acc"
| "parseDigits acc (c # cs) =
     (if isDigit c then parseDigits (acc * 10 + digitValue c) cs else None)"

text \<open>The value of a digit \<open>0-9\<close>, \<open>a-f\<close> or \<open>A-F\<close>, when it is a digit of radix \<open>b\<close>.\<close>

definition radixDigit :: "nat \<Rightarrow> char \<Rightarrow> nat option" where
  "radixDigit b c =
     (let k = (of_char c :: nat);
          v = (if 48 \<le> k \<and> k \<le> 57 then Some (k - 48)
               else if 97 \<le> k \<and> k \<le> 102 then Some (k - 87)
               else if 65 \<le> k \<and> k \<le> 70 then Some (k - 55)
               else None)
      in case v of None \<Rightarrow> None | Some d \<Rightarrow> if d < b then Some d else None)"

fun parseRadix :: "nat \<Rightarrow> nat \<Rightarrow> string \<Rightarrow> nat option" where
  "parseRadix b acc [] = Some acc"
| "parseRadix b acc (c # cs) =
     (case radixDigit b c of None \<Rightarrow> None | Some d \<Rightarrow> parseRadix b (acc * b + d) cs)"

definition radixPrefix :: "char \<Rightarrow> nat option" where
  "radixPrefix c =
     (if c = CHR ''x'' \<or> c = CHR ''X'' then Some 16
      else if c = CHR ''o'' \<or> c = CHR ''O'' then Some 8
      else if c = CHR ''b'' \<or> c = CHR ''B'' then Some 2
      else None)"

text \<open>The exponent part: nothing, or \<open>e\<close> or \<open>E\<close>, an optional sign, and digits.\<close>

definition exponentDigits :: "string \<Rightarrow> int option" where
  "exponentDigits ds = (if ds = [] then None else map_option int (parseDigits 0 ds))"

definition exponentPart :: "string \<Rightarrow> int option" where
  "exponentPart s =
     (case s of
        [] \<Rightarrow> Some 0
      | c # t \<Rightarrow>
          if c = CHR ''e'' \<or> c = CHR ''E'' then
            (case t of
               [] \<Rightarrow> None
             | sign # ds \<Rightarrow>
                 if sign = CHR ''+'' then exponentDigits ds
                 else if sign = CHR ''-'' then map_option uminus (exponentDigits ds)
                 else exponentDigits t)
          else None)"

text \<open>\<open>m\<close> times ten to the \<open>k\<close>, when that is an integer.\<close>

definition scaled :: "nat \<Rightarrow> int \<Rightarrow> int option" where
  "scaled m k =
     (if 0 \<le> k then Some (int m * 10 ^ nat k)
      else if int m mod 10 ^ nat (- k) = 0 then Some (int m div 10 ^ nat (- k))
      else None)"

definition unsignedDecimal :: "string \<Rightarrow> int option" where
  "unsignedDecimal s =
     (let whole = takeWhile isDigit s;
          rest = dropWhile isDigit s;
          afterPoint = (case rest of [] \<Rightarrow> [] | c # t \<Rightarrow> if c = CHR ''.'' then t else []);
          fraction = takeWhile isDigit afterPoint;
          tail = (case rest of
                    [] \<Rightarrow> []
                  | c # t \<Rightarrow> if c = CHR ''.'' then dropWhile isDigit t else rest)
      in if whole = [] \<and> fraction = [] then None
         else (case exponentPart tail of
                 None \<Rightarrow> None
               | Some ex \<Rightarrow>
                   (case parseDigits 0 (whole @ fraction) of
                      None \<Rightarrow> None
                    | Some m \<Rightarrow> scaled m (ex - int (length fraction)))))"

definition nonDecimal :: "string \<Rightarrow> (nat \<times> string) option" where
  "nonDecimal s =
     (case s of
        c # p # ds \<Rightarrow>
          if c = CHR ''0'' then (case radixPrefix p of None \<Rightarrow> None | Some b \<Rightarrow> Some (b, ds))
          else None
      | _ \<Rightarrow> None)"

definition jsNumber :: "string \<Rightarrow> int option" where
  "jsNumber s =
     (case trim s of
        [] \<Rightarrow> Some 0
      | c # cs \<Rightarrow>
          (case nonDecimal (c # cs) of
             Some (b, ds) \<Rightarrow> if ds = [] then None else map_option int (parseRadix b 0 ds)
           | None \<Rightarrow>
               if c = CHR ''-'' then map_option uminus (unsignedDecimal cs)
               else if c = CHR ''+'' then unsignedDecimal cs
               else unsignedDecimal (c # cs)))"

subsection \<open>Import results\<close>

record ImportResult =
  success :: bool
  message :: string

text \<open>
  What a \<open>catch\<close> block receives: an \<open>Error\<close> with its message, or some other value (the
  event a failed \<open>FileReader\<close> rejects with).
\<close>

datatype thrown = ErrorMessage string | NotAnError

definition thrownMessage :: "thrown \<Rightarrow> string" where
  "thrownMessage t = (case t of ErrorMessage m \<Rightarrow> m | NotAnError \<Rightarrow> ''Unknown error'')"

subsection \<open>CSV import and export\<close>

text \<open>A header or data line: split at commas, each cell trimmed and stripped of quotes.\<close>

definition parseCells :: "string \<Rightarrow> string list" where
  "parseCells line = map (\<lambda>v. stripQuotes (trim v)) (splitOn CHR '','' line)"

text \<open>
  \<open>headers.forEach((header, index) => record[header] = values[index])\<close>: a later column
  with the same header overwrites an earlier one.
\<close>

definition rowObject :: "string list \<Rightarrow> string list \<Rightarrow> string \<Rightarrow> string option" where
  "rowObject headers values = map_of (rev (zip headers values))"

text \<open>\<open>a || b\<close> on two optional strings.\<close>

definition orElse :: "string option \<Rightarrow> string option \<Rightarrow> string option" where
  "orElse a b = (case a of None \<Rightarrow> b | Some s \<Rightarrow> if s = [] then b else Some s)"

text \<open>\<open>Number(x) || 0\<close>, where \<open>Number(undefined)\<close> is \<open>NaN\<close>.\<close>

definition numberOrZero :: "string option \<Rightarrow> int" where
  "numberOrZero x = orNumber (case x of None \<Rightarrow> None | Some s \<Rightarrow> jsNumber s) 0"

definition rowRecord :: "string list \<Rightarrow> string list \<Rightarrow> FinancialRecord option" where
  "rowRecord headers values =
     (if length values \<ge> length headers then
        (let record = rowObject headers values in
         if orString (orElse (record ''date'') (record ''Date'')) [] \<noteq> [] then
           Some \<lparr>fr_date = orString (orElse (record ''date'') (record ''Date'')) [],
                 fr_revenue = numberOrZero (orElse (record ''revenue'') (record ''Revenue'')),
                 fr_expenses = numberOrZero (orElse (record ''expenses'') (record ''Expenses'')),
                 fr_profit = numberOrZero (orElse (record ''profit'') (record ''Profit'')),
                 fr_cashFlow = numberOrZero (orElse (record ''cashFlow'') (record ''Cash Flow''))\<rparr>
         else None)
      else None)"

text \<open>The loop over the data lines, collecting the records it recognises.\<close>

fun parseRows :: "string list \<Rightarrow> string list \<Rightarrow> FinancialRecord list" where
  "parseRows headers [] = []"
| "parseRows headers (line # rest) =
     (case rowRecord headers (parseCells line) of
        None \<Rightarrow> parseRows headers rest
      | Some r \<Rightarrow> r # parseRows headers rest)"

definition recordInput :: "FinancialRecord \<Rightarrow> FinancialRecordInput" where
  "recordInput r =
     \<lparr>in_date = Some (fr_date r), in_revenue = fr_revenue r, in_expenses = fr_expenses r,
      in_profit = fr_profit r, in_cashFlow = fr_cashFlow r\<rparr>"

definition nonBlankLines :: "string \<Rightarrow> string list" where
  "nonBlankLines text = filter (\<lambda>line. trim line \<noteq> []) (splitOn CHR 0x0A text)"

text \<open>
  \<open>importFromCSV\<close>. The argument is what \<open>readFileAsText\<close> resolves to, or what it
  rejects with.
\<close>

definition importFromCSV ::
    "env \<Rightarrow> thrown + string \<Rightarrow> DataManager \<Rightarrow> ImportResult \<times> DataManager" where
  "importFromCSV e file dm =
     (case file of
        Inl err \<Rightarrow>
          (\<lparr>success = False, message = ''CSV import failed: '' @ thrownMessage err\<rparr>, dm)
      | Inr text \<Rightarrow>
          (let lines = nonBlankLines text in
           if length lines < 2 then
             (\<lparr>success = False,
               message = ''CSV file must have at least a header and one data row''\<rparr>, dm)
           else
             (let headers = parseCells (hd lines);
                  records = parseRows headers (tl lines);
                  dm' = fold (\<lambda>record. addFinancialRecord e (recordInput record)) records dm
              in (\<lparr>success = True,
                   message = ''Successfully imported '' @ numToString (int (length records))
                             @ '' financial records''\<rparr>, dm'))))"

text \<open>
  \<open>exportToCSV\<close> hands a file name and the file's text to \<open>saveAs\<close>; with no records it
  raises an alert and produces nothing. \<open>today\<close> is the current date as in
  \<open>env_today\<close>.
\<close>

record download =
  dl_fileName :: string
  dl_content :: string

definition csvLine :: "FinancialRecord \<Rightarrow> string" where
  "csvLine record =
     fr_date record @ '','' @ numToString (fr_revenue record) @ '','' @
     numToString (fr_expenses record) @ '','' @ numToString (fr_profit record) @ '','' @
     numToString (fr_cashFlow record)"

definition exportToCSV :: "env \<Rightarrow> DataManager \<Rightarrow> download option" where
  "exportToCSV e dm =
     (if length (financialRecords dm) = 0 then None
      else Some
        \<lparr>dl_fileName =
           orString (map_option bd_companyName (businessData dm)) ''Business''
           @ ''_Financial_'' @ env_today e @ ''.csv'',
         dl_content =
           joinWith [CHR 0x0A]
             (''Date,Revenue,Expenses,Profit,Cash Flow'' # map csvLine (financialRecords dm))\<rparr>)"

text \<open>
  A date that survives the trip through a CSV cell: not empty, free of commas, double
  quotes and line feeds, and with no white space at either end.
\<close>

definition plainDate :: "string \<Rightarrow> bool" where
  "plainDate d =
     (d \<noteq> [] \<and> CHR '','' \<notin> set d \<and> CHR 0x22 \<notin> set d \<and> CHR 0x0A \<notin> set d
      \<and> \<not> isWhiteSpace (hd d) \<and> \<not> isWhiteSpace (last d))"

subsection \<open>Spreadsheet import\<close>

text \<open>
  \<open>XLSX.read\<close> and \<open>XLSX.utils.sheet_to_json\<close> belong to a library. The model starts
  from their result: a workbook maps a sheet name to the rows \<open>sheet_to_json\<close> yields
  for that sheet, and a row maps a column header to a cell, which holds text or a number.

  The code hands a cell on to the field it is read into as it is. The store of the model
  is typed as the interfaces declare, so where a number lands in a string-typed field the
  model keeps its decimal text. On a row that holds no number under the headers read
  into string-typed fields (\<open>textual\<close> below) the model holds what the code holds.
\<close>

datatype cell = CText string | CNum int

type_synonym row = "(string \<times> cell) list"

type_synonym workbook = "(string \<times> row list) list"

definition truthy :: "cell option \<Rightarrow> bool" where
  "truthy c = (case c of None \<Rightarrow> False | Some (CText s) \<Rightarrow> s \<noteq> [] | Some (CNum n) \<Rightarrow> n \<noteq> 0)"

definition cellOr :: "cell option \<Rightarrow> cell option \<Rightarrow> cell option" where
  "cellOr a b = (if truthy a then a else b)"

text \<open>A cell passed on to a string field that is read through \<open>|| default\<close>.\<close>

definition cellText :: "cell option \<Rightarrow> string option" where
  "cellText c =
     (if truthy c then
        (case c of Some (CText s) \<Rightarrow> Some s | Some (CNum n) \<Rightarrow> Some (numToString n) | None \<Rightarrow> None)
      else None)"

text \<open>\<open>Number(c) || 0\<close>\<close>

definition cellNumberOrZero :: "cell option \<Rightarrow> int" where
  "cellNumberOrZero c =
     orNumber (case c of None \<Rightarrow> None | Some (CText s) \<Rightarrow> jsNumber s | Some (CNum n) \<Rightarrow> Some n) 0"

text \<open>\<open>workbook.Sheets[a] || workbook.Sheets[b]\<close>\<close>

definition sheetOf :: "workbook \<Rightarrow> string \<Rightarrow> string \<Rightarrow> row list option" where
  "sheetOf wb a b = (case map_of wb a of Some sh \<Rightarrow> Some sh | None \<Rightarrow> map_of wb b)"

definition businessRow :: "row \<Rightarrow> BusinessDataPartial" where
  "businessRow r =
     \<lparr>p_id = None,
      p_companyName = cellText (cellOr (map_of r ''Company Name'') (map_of r ''companyName'')),
      p_industry = cellText (cellOr (map_of r ''Industry'') (map_of r ''industry'')),
      p_employees = Some (cellNumberOrZero (cellOr (map_of r ''Employees'') (map_of r ''employees''))),
      p_revenue = Some (cellNumberOrZero (cellOr (map_of r ''Revenue'') (map_of r ''revenue''))),
      p_costs = Some (cellNumberOrZero (cellOr (map_of r ''Costs'') (map_of r ''costs''))),
      p_assets = Some (cellNumberOrZero (cellOr (map_of r ''Assets'') (map_of r ''assets''))),
      p_liabilities =
        Some (cellNumberOrZero (cellOr (map_of r ''Liabilities'') (map_of r ''liabilities''))),
      p_cashFlow = Some (cellNumberOrZero (cellOr (map_of r ''Cash Flow'') (map_of r ''cashFlow''))),
      p_createdAt = None,
      p_updatedAt = None\<rparr>"

definition hasDate :: "row \<Rightarrow> bool" where
  "hasDate r = truthy (cellOr (map_of r ''Date'') (map_of r ''date''))"

definition financialRow :: "row \<Rightarrow> FinancialRecordInput" where
  "financialRow r =
     \<lparr>in_date = cellText (cellOr (map_of r ''Date'') (map_of r ''date'')),
      in_revenue = cellNumberOrZero (cellOr (map_of r ''Revenue'') (map_of r ''revenue'')),
      in_expenses = cellNumberOrZero (cellOr (map_of r ''Expenses'') (map_of r ''expenses'')),
      in_profit = cellNumberOrZero (cellOr (map_of r ''Profit'') (map_of r ''profit'')),
      in_cashFlow = cellNumberOrZero (cellOr (map_of r ''Cash Flow'') (map_of r ''cashFlow''))\<rparr>"

text \<open>The date the code reads off a row: the cell under \<open>Date\<close>, else the one under \<open>date\<close>.\<close>

definition rowDate :: "row \<Rightarrow> string" where
  "rowDate r = orString (cellText (cellOr (map_of r ''Date'') (map_of r ''date''))) []"

text \<open>
  \<open>textual r keys\<close>: under none of the headers \<open>keys\<close> does the row hold a number, except
  the number 0, which \<open>||\<close> discards as it does the empty string.
\<close>

definition textual :: "row \<Rightarrow> string list \<Rightarrow> bool" where
  "textual r keys =
     list_all (\<lambda>k. case map_of r k of Some (CNum n) \<Rightarrow> n = 0 | _ \<Rightarrow> True) keys"

text \<open>
  \<open>records.forEach\<close>: the store and the counter \<open>imported\<close> are threaded through the
  rows.
\<close>

fun importRecordRows :: "env \<Rightarrow> row list \<Rightarrow> DataManager \<times> nat \<Rightarrow> DataManager \<times> nat" where
  "importRecordRows e [] acc = acc"
| "importRecordRows e (r # rs) (dm, imported) =
     (if hasDate r
      then importRecordRows e rs (addFinancialRecord e (financialRow r) dm, imported + 1)
      else importRecordRows e rs (dm, imported))"

definition kpiRow :: "row \<Rightarrow> KPIData" where
  "kpiRow r =
     \<lparr>kpi_metric = orString (cellText (cellOr (map_of r ''Metric'') (map_of r ''metric''))) [],
      kpi_value = cellNumberOrZero (cellOr (map_of r ''Value'') (map_of r ''value'')),
      kpi_target = cellNumberOrZero (cellOr (map_of r ''Target'') (map_of r ''target'')),
      kpi_unit = orString (cellText (cellOr (map_of r ''Unit'') (map_of r ''unit''))) [],
      kpi_category =
        orString (cellText (cellOr (map_of r ''Category'') (map_of r ''category''))) ''operational''\<rparr>"

definition sheetKPIs :: "row list \<Rightarrow> KPIData list" where
  "sheetKPIs rows = filter (\<lambda>kpi. kpi_metric kpi \<noteq> []) (map kpiRow rows)"

text \<open>
  \<open>importFromExcel\<close>. The argument is the parsed workbook, or what reading or parsing
  the file threw. The model has the library fail before the first sheet is applied or
  not at all.
\<close>

definition importFromExcel ::
    "env \<Rightarrow> thrown + workbook \<Rightarrow> DataManager \<Rightarrow> ImportResult \<times> DataManager" where
  "importFromExcel e file dm =
     (case file of
        Inl err \<Rightarrow> (\<lparr>success = False, message = ''Import failed: '' @ thrownMessage err\<rparr>, dm)
      | Inr wb \<Rightarrow>
          (let businessSheet = sheetOf wb ''Business Data'' ''Company'';
               financialSheet = sheetOf wb ''Financial Records'' ''Financials'';
               kpiSheet = sheetOf wb ''KPIs'' ''Metrics'';
               (dm1, imported1) =
                 (case businessSheet of
                    None \<Rightarrow> (dm, 0)
                  | Some [] \<Rightarrow> (dm, 0)
                  | Some (r # _) \<Rightarrow> (setBusinessData e (businessRow r) dm, 1));
               (dm2, imported2) =
                 (case financialSheet of
                    None \<Rightarrow> (dm1, imported1)
                  | Some rows \<Rightarrow> importRecordRows e rows (dm1, imported1));
               (dm3, imported3) =
                 (case kpiSheet of
                    None \<Rightarrow> (dm2, imported2)
                  | Some rows \<Rightarrow>
                      (let kpis = sheetKPIs rows in
                       if length kpis > 0
                       then (setKPIData kpis dm2, imported2 + length kpis)
                       else (dm2, imported2)))
           in (\<lparr>success = True,
                message = ''Successfully imported '' @ numToString (int imported3) @ '' records''\<rparr>,
               dm3)))"

text \<open>The counts of what a workbook contributes, read off the sheets.\<close>

definition profileRowCount :: "workbook \<Rightarrow> nat" where
  "profileRowCount wb =
     (case sheetOf wb ''Business Data'' ''Company'' of
        None \<Rightarrow> 0 | Some rows \<Rightarrow> (if rows = [] then 0 else 1))"

definition recordRowCount :: "workbook \<Rightarrow> nat" where
  "recordRowCount wb =
     (case sheetOf wb ''Financial Records'' ''Financials'' of
        None \<Rightarrow> 0 | Some rows \<Rightarrow> length (filter hasDate rows))"

definition indicatorCount :: "workbook \<Rightarrow> nat" where
  "indicatorCount wb =
     (case sheetOf wb ''KPIs'' ''Metrics'' of
        None \<Rightarrow> 0 | Some rows \<Rightarrow> length (sheetKPIs rows))"

subsection \<open>Fixtures\<close>

text \<open>The values the examples run on. The time values are those of UTC midnight.\<close>

definition sampleGetTime :: "string \<Rightarrow> int option" where
  "sampleGetTime =
     map_of [(''2024-01-01'', 1704067200000), (''2024-01-02'', 1704153600000),
             (''2024-02-01'', 1706745600000), (''Jan 1, 2024'', 1704067200000)]"

definition sampleEnv :: env where
  "sampleEnv =
     \<lparr>env_now = 1718000000000, env_idClock = 1718000000000, env_random = ''4fzzzxjylrx'',
      env_today = ''2024-06-10'', env_getTime = sampleGetTime\<rparr>"

definition emptyStore :: DataManager where
  "emptyStore = newDataManager emptyStorage"

definition acmeProfile :: BusinessData where
  "acmeProfile =
     \<lparr>bd_id = ''lx2k9q3ab'', bd_companyName = ''Acme'', bd_industry = ''Retail/E-commerce'',
      bd_employees = 12, bd_revenue = 1000, bd_costs = 600, bd_assets = 5000,
      bd_liabilities = 2000, bd_cashFlow = 150, bd_createdAt = 1700000000000,
      bd_updatedAt = 1700000000000\<rparr>"

definition january1 :: FinancialRecord where
  "january1 =
     \<lparr>fr_date = ''2024-01-01'', fr_revenue = 100, fr_expenses = 60, fr_profit = 40,
      fr_cashFlow = 30\<rparr>"

definition january2 :: FinancialRecord where
  "january2 =
     \<lparr>fr_date = ''2024-01-02'', fr_revenue = 120, fr_expenses = 70, fr_profit = 50,
      fr_cashFlow = 35\<rparr>"

definition churn :: KPIData where
  "churn =
     \<lparr>kpi_metric = ''Churn'', kpi_value = 5, kpi_target = 3, kpi_unit = ''%'',
      kpi_category = ''customer''\<rparr>"

definition churnLater :: KPIData where
  "churnLater =
     \<lparr>kpi_metric = ''Churn'', kpi_value = 4, kpi_target = 3, kpi_unit = ''%'',
      kpi_category = ''customer''\<rparr>"

definition acmeInput :: BusinessDataPartial where
  "acmeInput =
     emptyPartial\<lparr>p_companyName := Some ''Acme'', p_revenue := Some 1000, p_costs := Some 600,
       p_assets := Some 5000, p_liabilities := Some 2000\<rparr>"

definition suppliedIdentity :: BusinessDataPartial where
  "suppliedIdentity = emptyPartial\<lparr>p_id := Some ''k3y9'', p_createdAt := Some 1690000000000\<rparr>"

definition acmeStorage :: storage where
  "acmeStorage =
     \<lparr>st_business = Some acmeProfile, st_records = Some [january1], st_kpis = Some [churn],
      st_writable = True\<rparr>"

definition acmeStore :: DataManager where
  "acmeStore = newDataManager acmeStorage"

definition januaryStore :: DataManager where
  "januaryStore =
     addFinancialRecord sampleEnv (recordInput january2)
       (addFinancialRecord sampleEnv (recordInput january1) emptyStore)"

definition january1Revised :: FinancialRecordInput where
  "january1Revised =
     \<lparr>in_date = Some ''2024-01-01'', in_revenue = 110, in_expenses = 60, in_profit = 50,
      in_cashFlow = 30\<rparr>"

definition redate :: "string \<Rightarrow> FinancialRecordPartial" where
  "redate d =
     \<lparr>fu_date = Some d, fu_revenue = None, fu_expenses = None, fu_profit = None,
      fu_cashFlow = None\<rparr>"

definition newRevenue :: "int \<Rightarrow> FinancialRecordPartial" where
  "newRevenue n =
     \<lparr>fu_date = None, fu_revenue = Some n, fu_expenses = None, fu_profit = None,
      fu_cashFlow = None\<rparr>"

definition nps :: KPIData where
  "nps =
     \<lparr>kpi_metric = ''NPS'', kpi_value = 40, kpi_target = 50, kpi_unit = [],
      kpi_category = ''customer''\<rparr>"

definition renamed :: "string \<Rightarrow> KPIDataPartial" where
  "renamed m =
     \<lparr>ku_metric = Some m, ku_value = None, ku_target = None, ku_unit = None,
      ku_category = None\<rparr>"

definition newValue :: "int \<Rightarrow> KPIDataPartial" where
  "newValue n =
     \<lparr>ku_metric = None, ku_value = Some n, ku_target = None, ku_unit = None,
      ku_category = None\<rparr>"

definition sampleCsv :: string where
  "sampleCsv =
     ''Date,Revenue,Expenses,Profit,Cash Flow'' @ [CHR 0x0A] @ ''2024-01-01,100,60,40,30''"

definition headerOnlyCsv :: string where
  "headerOnlyCsv = ''Date,Revenue,Expenses,Profit,Cash Flow'' @ [CHR 0x0A] @ ''  '' @ [CHR 0x0A]"

definition januaryCsv :: string where
  "januaryCsv =
     ''Date,Revenue,Expenses,Profit,Cash Flow'' @ [CHR 0x0A] @ ''2024-01-01,100,60,40,30''
     @ [CHR 0x0A] @ ''2024-01-02,120,70,50,35''"

definition commaRecord :: FinancialRecord where
  "commaRecord =
     \<lparr>fr_date = ''Jan 1, 2024'', fr_revenue = 100, fr_expenses = 60, fr_profit = 40,
      fr_cashFlow = 30\<rparr>"

definition commaStore :: DataManager where
  "commaStore = addFinancialRecord sampleEnv (recordInput commaRecord) emptyStore"

definition commaCsv :: string where
  "commaCsv =
     ''Date,Revenue,Expenses,Profit,Cash Flow'' @ [CHR 0x0A] @ ''Jan 1, 2024,100,60,40,30''"

definition sampleWorkbook :: workbook where
  "sampleWorkbook =
     [(''Business Data'', [[(''Company Name'', CText ''Acme''), (''Revenue'', CNum 1000)]]),
      (''Financial Records'',
         [[(''Date'', CText ''2024-01-01''), (''Revenue'', CNum 100)], [(''Revenue'', CNum 5)]]),
      (''KPIs'',
         [[(''Metric'', CText ''NPS''), (''Value'', CNum 40), (''Target'', CNum 50)],
          [(''Value'', CNum 7)]])]"

definition unnamedKpiWorkbook :: workbook where
  "unnamedKpiWorkbook = [(''Metrics'', [[(''Value'', CNum 7)], [(''Metric'', CText [])]])]"

definition notesWorkbook :: workbook where
  "notesWorkbook = [(''Notes'', [[(''Text'', CText ''nothing to import'')]])]"

subsection \<open>Auxiliary functions\<close>

text \<open>
  The record \<open>addFinancialRecord\<close> builds from its argument, and what it does to the
  array of records.
\<close>

definition inputRecord :: "env \<Rightarrow> FinancialRecordInput \<Rightarrow> FinancialRecord" where
  "inputRecord e record =
     \<lparr>fr_date = orString (in_date record) (env_today e), fr_revenue = in_revenue record,
      fr_expenses = in_expenses record, fr_profit = in_profit record,
      fr_cashFlow = in_cashFlow record\<rparr>"

definition addStep :: "env \<Rightarrow> FinancialRecord \<Rightarrow> FinancialRecord list \<Rightarrow> FinancialRecord list" where
  "addStep e r rs = arraySort (compareByDate e) (filter (\<lambda>x. fr_date x \<noteq> fr_date r) rs @ [r])"

section \<open>Properties of the store\<close>

subsection \<open>Persisting leaves the in-memory state alone\<close>

lemma saveToStorage_businessData [simp]: "businessData (saveToStorage dm) = businessData dm"
  by (simp add: saveToStorage_def split: option.splits)

lemma saveToStorage_financialRecords [simp]:
  "financialRecords (saveToStorage dm) = financialRecords dm"
  by (simp add: saveToStorage_def split: option.splits)

lemma saveToStorage_kpiData [simp]: "kpiData (saveToStorage dm) = kpiData dm"
  by (simp add: saveToStorage_def split: option.splits)

lemma emptyStore_fields:
  "businessData emptyStore = None"
  "financialRecords emptyStore = []"
  "kpiData emptyStore = []"
  "localStorage emptyStore = emptyStorage"
  by (simp_all add: emptyStore_def newDataManager_def loadFromStorage_def emptyStorage_def)

lemma acmeStore_fields:
  "businessData acmeStore = Some acmeProfile"
  "financialRecords acmeStore = [january1]"
  "kpiData acmeStore = [churn]"
  "localStorage acmeStore = acmeStorage"
  by (simp_all add: acmeStore_def newDataManager_def loadFromStorage_def acmeStorage_def)

lemma generateId_sampleEnv: "generateId sampleEnv = ''lx8kuby84fzzzxjylrx''"
  by (simp add: generateId_def sampleEnv_def toStringRadix_def radixString.simps digitChar_def)

lemma findIndex_Some: "findIndex P xs = Some i \<Longrightarrow> i < length xs \<and> P (xs ! i)"
  by (induction xs arbitrary: i) (auto split: if_splits)

lemma map_update_same_key:
  assumes "i < length xs" and "f y = f (xs ! i)"
  shows "map f (xs[i := y]) = map f xs"
  using assms by (simp add: map_update list_update_same_conv)

subsection \<open>Clearing the store\<close>

text \<open>
  C1. After \<open>clearAllData\<close> the three getters return \<open>null\<close>, \<open>[]\<close> and \<open>[]\<close>, and the
  cleared state is meant to be what durable storage holds. On a store that was loaded
  with a persisted profile, the two list items are rewritten as empty, but
  \<open>saveToStorage\<close> skips the profile item when the profile is \<open>null\<close>: the item keeps the
  old profile, and a store constructed from that storage has the profile again.
\<close>

theorem clearAllData_leaves_profile_item:
  "getBusinessData (clearAllData acmeStore) = None
   \<and> getFinancialRecords (clearAllData acmeStore) = []
   \<and> getKPIData (clearAllData acmeStore) = []
   \<and> st_records (localStorage (clearAllData acmeStore)) = Some []
   \<and> st_kpis (localStorage (clearAllData acmeStore)) = Some []
   \<and> st_business (localStorage (clearAllData acmeStore)) = Some acmeProfile
   \<and> getBusinessData (newDataManager (localStorage (clearAllData acmeStore))) = Some acmeProfile"
  by (simp add: clearAllData_def getBusinessData_def getFinancialRecords_def getKPIData_def
      saveToStorage_def setItem_def acmeStore_fields acmeStorage_def newDataManager_def
      loadFromStorage_def)

subsection \<open>The profile\<close>

text \<open>
  \<open>setBusinessData\<close> never looks at the profile it replaces. Called without \<open>id\<close> and
  \<open>createdAt\<close> on a store that has a profile, it generates a new id and stamps
  \<open>createdAt\<close> with the current time.
\<close>

theorem setBusinessData_fresh_id_counterexample:
  "map_option bd_id (getBusinessData acmeStore) = Some ''lx2k9q3ab''
   \<and> map_option bd_createdAt (getBusinessData acmeStore) = Some 1700000000000
   \<and> p_id emptyPartial = None \<and> p_createdAt emptyPartial = None
   \<and> map_option bd_id (getBusinessData (setBusinessData sampleEnv emptyPartial acmeStore))
       = Some ''lx8kuby84fzzzxjylrx''
   \<and> map_option bd_createdAt (getBusinessData (setBusinessData sampleEnv emptyPartial acmeStore))
       = Some 1718000000000"
  by (simp add: getBusinessData_def acmeStore_fields acmeProfile_def emptyPartial_def
      setBusinessData_def orString_def orDate_def generateId_sampleEnv)
     (simp add: sampleEnv_def)

text \<open>
  C3, as the code has it. \<open>setBusinessData\<close> always leaves a profile. Its \<open>id\<close> is the one
  the caller supplies when that is a non-empty string, and a newly generated one
  otherwise; its \<open>createdAt\<close> is the one the caller supplies, and the current time
  otherwise; its \<open>updatedAt\<close> is the current time on every call. The profile that was
  there before plays no part.
\<close>

theorem setBusinessData_identity:
  "\<exists>b. getBusinessData (setBusinessData e data dm) = Some b
     \<and> (p_id data = None \<or> p_id data = Some [] \<longrightarrow> bd_id b = generateId e)
     \<and> (\<forall>i. p_id data = Some i \<and> i \<noteq> [] \<longrightarrow> bd_id b = i)
     \<and> (p_createdAt data = None \<longrightarrow> bd_createdAt b = env_now e)
     \<and> (\<forall>c. p_createdAt data = Some c \<longrightarrow> bd_createdAt b = c)
     \<and> bd_updatedAt b = env_now e"
  by (simp add: getBusinessData_def setBusinessData_def orString_def orDate_def Let_def)

theorem setBusinessData_identity_witness:
  "p_id suppliedIdentity = Some ''k3y9'' \<and> p_createdAt suppliedIdentity = Some 1690000000000
   \<and> map_option bd_id (getBusinessData (setBusinessData sampleEnv suppliedIdentity acmeStore))
       = Some ''k3y9''
   \<and> map_option bd_createdAt (getBusinessData (setBusinessData sampleEnv suppliedIdentity acmeStore))
       = Some 1690000000000
   \<and> map_option bd_updatedAt (getBusinessData (setBusinessData sampleEnv suppliedIdentity acmeStore))
       = Some 1718000000000
   \<and> p_id emptyPartial = None \<and> p_createdAt emptyPartial = None
   \<and> map_option bd_id (getBusinessData (setBusinessData sampleEnv emptyPartial acmeStore))
       = Some ''lx8kuby84fzzzxjylrx''
   \<and> map_option bd_createdAt (getBusinessData (setBusinessData sampleEnv emptyPartial acmeStore))
       = Some 1718000000000"
proof -
  have s: "p_id suppliedIdentity = Some ''k3y9''"
    "p_createdAt suppliedIdentity = Some 1690000000000"
    by (simp_all add: suppliedIdentity_def emptyPartial_def)
  have n: "p_id emptyPartial = None" "p_createdAt emptyPartial = None"
    by (simp_all add: emptyPartial_def)
  have now: "env_now sampleEnv = 1718000000000" by (simp add: sampleEnv_def)
  from setBusinessData_identity [of sampleEnv suppliedIdentity acmeStore] s now
  have a: "map_option bd_id (getBusinessData (setBusinessData sampleEnv suppliedIdentity acmeStore))
       = Some ''k3y9''
   \<and> map_option bd_createdAt (getBusinessData (setBusinessData sampleEnv suppliedIdentity acmeStore))
       = Some 1690000000000
   \<and> map_option bd_updatedAt (getBusinessData (setBusinessData sampleEnv suppliedIdentity acmeStore))
       = Some 1718000000000"
    by auto
  from setBusinessData_identity [of sampleEnv emptyPartial acmeStore] n now generateId_sampleEnv
  have b: "map_option bd_id (getBusinessData (setBusinessData sampleEnv emptyPartial acmeStore))
       = Some ''lx8kuby84fzzzxjylrx''
   \<and> map_option bd_createdAt (getBusinessData (setBusinessData sampleEnv emptyPartial acmeStore))
       = Some 1718000000000"
    by auto
  from s n a b show ?thesis by blast
qed

text \<open>
  C7. Whatever partial profile \<open>setBusinessData\<close> receives, \<open>getBusinessData\<close> then
  returns a profile in which each numeric field the input omits (\<open>employees\<close>,
  \<open>revenue\<close>, \<open>costs\<close>, \<open>assets\<close>, \<open>liabilities\<close>, \<open>cashFlow\<close>) is 0 and each free-text
  field it omits (\<open>companyName\<close>, \<open>industry\<close>) is the empty string.
\<close>

theorem setBusinessData_defaults:
  "\<exists>b. getBusinessData (setBusinessData e data dm) = Some b
     \<and> (p_companyName data = None \<longrightarrow> bd_companyName b = [])
     \<and> (p_industry data = None \<longrightarrow> bd_industry b = [])
     \<and> (p_employees data = None \<longrightarrow> bd_employees b = 0)
     \<and> (p_revenue data = None \<longrightarrow> bd_revenue b = 0)
     \<and> (p_costs data = None \<longrightarrow> bd_costs b = 0)
     \<and> (p_assets data = None \<longrightarrow> bd_assets b = 0)
     \<and> (p_liabilities data = None \<longrightarrow> bd_liabilities b = 0)
     \<and> (p_cashFlow data = None \<longrightarrow> bd_cashFlow b = 0)"
  by (simp add: getBusinessData_def setBusinessData_def orString_def orNumber_def Let_def)

theorem setBusinessData_defaults_witness:
  "p_companyName emptyPartial = None \<and> p_industry emptyPartial = None
   \<and> p_employees emptyPartial = None \<and> p_revenue emptyPartial = None
   \<and> p_costs emptyPartial = None \<and> p_assets emptyPartial = None
   \<and> p_liabilities emptyPartial = None \<and> p_cashFlow emptyPartial = None
   \<and> map_option bd_companyName (getBusinessData (setBusinessData sampleEnv emptyPartial emptyStore))
       = Some []
   \<and> map_option bd_industry (getBusinessData (setBusinessData sampleEnv emptyPartial emptyStore))
       = Some []
   \<and> map_option bd_employees (getBusinessData (setBusinessData sampleEnv emptyPartial emptyStore))
       = Some 0
   \<and> map_option bd_revenue (getBusinessData (setBusinessData sampleEnv emptyPartial emptyStore))
       = Some 0
   \<and> map_option bd_costs (getBusinessData (setBusinessData sampleEnv emptyPartial emptyStore))
       = Some 0
   \<and> map_option bd_assets (getBusinessData (setBusinessData sampleEnv emptyPartial emptyStore))
       = Some 0
   \<and> map_option bd_liabilities (getBusinessData (setBusinessData sampleEnv emptyPartial emptyStore))
       = Some 0
   \<and> map_option bd_cashFlow (getBusinessData (setBusinessData sampleEnv emptyPartial emptyStore))
       = Some 0"
proof -
  have n: "p_companyName emptyPartial = None" "p_industry emptyPartial = None"
    "p_employees emptyPartial = None" "p_revenue emptyPartial = None"
    "p_costs emptyPartial = None" "p_assets emptyPartial = None"
    "p_liabilities emptyPartial = None" "p_cashFlow emptyPartial = None"
    by (simp_all add: emptyPartial_def)
  from setBusinessData_defaults [of sampleEnv emptyPartial emptyStore] n
  obtain b where "getBusinessData (setBusinessData sampleEnv emptyPartial emptyStore) = Some b"
    "bd_companyName b = []" "bd_industry b = []" "bd_employees b = 0" "bd_revenue b = 0"
    "bd_costs b = 0" "bd_assets b = 0" "bd_liabilities b = 0" "bd_cashFlow b = 0"
    by blast
  with n show ?thesis by simp
qed

subsection \<open>Derived metrics\<close>

text \<open>
  C5. \<open>getFinancialMetrics\<close> returns \<open>null\<close> when there is no profile. When there is
  one it returns gross profit = revenue - costs, net profit = gross profit and
  equity = assets - liabilities. After \<open>setBusinessData\<close> with company name Acme,
  revenue 1000, costs 600, assets 5000 and liabilities 2000 these are 400, 400 and 3000.
\<close>

theorem getFinancialMetrics_derived:
  "(businessData dm = None \<longrightarrow> getFinancialMetrics dm = None)
   \<and> (\<forall>b. businessData dm = Some b \<longrightarrow>
        (\<exists>m. getFinancialMetrics dm = Some m
           \<and> fm_grossProfit m = bd_revenue b - bd_costs b
           \<and> fm_netProfit m = fm_grossProfit m
           \<and> fm_equity m = bd_assets b - bd_liabilities b))
   \<and> (\<exists>m. getFinancialMetrics (setBusinessData e acmeInput dm) = Some m
           \<and> fm_grossProfit m = 400 \<and> fm_netProfit m = 400 \<and> fm_equity m = 3000)"
  by (simp add: getFinancialMetrics_def setBusinessData_def acmeInput_def emptyPartial_def
      orNumber_def Let_def)

theorem getFinancialMetrics_derived_witness:
  "businessData emptyStore = None \<and> getFinancialMetrics emptyStore = None
   \<and> businessData acmeStore = Some acmeProfile
   \<and> map_option fm_grossProfit (getFinancialMetrics acmeStore) = Some 400
   \<and> map_option fm_netProfit (getFinancialMetrics acmeStore) = Some 400
   \<and> map_option fm_equity (getFinancialMetrics acmeStore) = Some 3000"
proof -
  have none: "businessData emptyStore = None" by (simp add: emptyStore_fields)
  have some: "businessData acmeStore = Some acmeProfile" by (simp add: acmeStore_fields)
  from getFinancialMetrics_derived [of emptyStore] none
  have a: "getFinancialMetrics emptyStore = None" by blast
  from getFinancialMetrics_derived [of acmeStore] some
  obtain m where "getFinancialMetrics acmeStore = Some m"
    "fm_grossProfit m = bd_revenue acmeProfile - bd_costs acmeProfile"
    "fm_netProfit m = fm_grossProfit m"
    "fm_equity m = bd_assets acmeProfile - bd_liabilities acmeProfile" by blast
  then have "map_option fm_grossProfit (getFinancialMetrics acmeStore) = Some 400
   \<and> map_option fm_netProfit (getFinancialMetrics acmeStore) = Some 400
   \<and> map_option fm_equity (getFinancialMetrics acmeStore) = Some 3000"
    by (simp add: acmeProfile_def)
  with none some a show ?thesis by blast
qed

subsection \<open>Indicators\<close>

lemma mergeKPI_metric:
  "ku_metric u = None \<or> ku_metric u = Some (kpi_metric old) \<Longrightarrow>
   kpi_metric (mergeKPI old u) = kpi_metric old"
  by (auto simp: mergeKPI_def)

lemma updateKPI_metrics:
  assumes "ku_metric u = None \<or> ku_metric u = Some m"
  shows "map kpi_metric (kpiData (updateKPI m u dm)) = map kpi_metric (kpiData dm)"
proof (cases "findIndex (\<lambda>k. kpi_metric k = m) (kpiData dm)")
  case None
  then show ?thesis by (simp add: updateKPI_def)
next
  case (Some i)
  from findIndex_Some [OF Some] have i: "i < length (kpiData dm)"
    and m: "kpi_metric (kpiData dm ! i) = m" by simp_all
  from assms m have "kpi_metric (mergeKPI (kpiData dm ! i) u) = kpi_metric (kpiData dm ! i)"
    by (intro mergeKPI_metric) simp
  with i Some show ?thesis
    by (simp add: updateKPI_def map_update_same_key)
qed

lemma addKPI_kpiData:
  "kpiData (addKPI kpi dm) = filter (\<lambda>k. kpi_metric k \<noteq> kpi_metric kpi) (kpiData dm) @ [kpi]"
  by (simp add: addKPI_def)

lemma uniqueMetrics_add:
  "uniqueMetrics ks \<Longrightarrow>
   uniqueMetrics (filter (\<lambda>k. kpi_metric k \<noteq> kpi_metric kpi) ks @ [kpi])"
  by (auto simp: uniqueMetrics_def distinct_map_filter)

text \<open>
  \<open>setKPIData\<close> stores the array it is given. Given two indicators with the same metric
  name, the store then holds both. \<open>updateKPI\<close> merges whatever fields it is given, the
  metric name among them: renaming one of two indicators to the name of the other leaves
  two indicators under one name.
\<close>

theorem setKPIData_duplicates_counterexample:
  "kpi_metric churn = kpi_metric churnLater
   \<and> getKPIData (setKPIData [churn, churnLater] emptyStore) = [churn, churnLater]
   \<and> \<not> uniqueMetrics (getKPIData (setKPIData [churn, churnLater] emptyStore))
   \<and> getKPIData (addKPI nps (addKPI churn emptyStore)) = [churn, nps]
   \<and> uniqueMetrics (getKPIData (addKPI nps (addKPI churn emptyStore)))
   \<and> map kpi_metric
        (getKPIData (updateKPI ''NPS'' (renamed ''Churn'') (addKPI nps (addKPI churn emptyStore))))
       = [''Churn'', ''Churn'']
   \<and> \<not> uniqueMetrics
        (getKPIData (updateKPI ''NPS'' (renamed ''Churn'') (addKPI nps (addKPI churn emptyStore))))"
proof -
  have k: "kpiData (addKPI nps (addKPI churn emptyStore)) = [churn, nps]"
    by (simp add: addKPI_kpiData emptyStore_fields churn_def nps_def)
  have u: "map kpi_metric
        (kpiData (updateKPI ''NPS'' (renamed ''Churn'') (addKPI nps (addKPI churn emptyStore))))
       = [''Churn'', ''Churn'']"
    by (simp add: updateKPI_def k) (simp add: churn_def nps_def renamed_def mergeKPI_def)
  from k u show ?thesis
    by (simp add: getKPIData_def setKPIData_def uniqueMetrics_def)
       (simp add: churn_def churnLater_def nps_def)
qed

text \<open>
  C4, as the code has it. \<open>setKPIData\<close> makes the collection exactly the array it is
  given, so the metric names are unique afterwards just when they are unique in that
  array. After \<open>addKPI\<close> the collection holds exactly one indicator with the added
  metric name, the added one, whatever was stored under that name before. On a
  collection with unique metric names, \<open>addKPI\<close> and \<open>deleteKPI\<close> keep the names unique,
  and so does an \<open>updateKPI\<close> whose update leaves the metric name as it is.
\<close>

theorem indicator_operations_uniqueness:
  "kpiData (setKPIData kpis dm) = kpis
   \<and> filter (\<lambda>k. kpi_metric k = kpi_metric kpi) (kpiData (addKPI kpi dm)) = [kpi]
   \<and> (uniqueMetrics (kpiData dm) \<longrightarrow>
        uniqueMetrics (kpiData (addKPI kpi dm))
        \<and> uniqueMetrics (kpiData (deleteKPI metric dm))
        \<and> (ku_metric updates = None \<or> ku_metric updates = Some metric \<longrightarrow>
             uniqueMetrics (kpiData (updateKPI metric updates dm))))"
proof (intro conjI impI)
  show "kpiData (setKPIData kpis dm) = kpis" by (simp add: setKPIData_def)
  show "filter (\<lambda>k. kpi_metric k = kpi_metric kpi) (kpiData (addKPI kpi dm)) = [kpi]"
    by (simp add: addKPI_kpiData)
next
  assume u: "uniqueMetrics (kpiData dm)"
  then show "uniqueMetrics (kpiData (addKPI kpi dm))"
    by (simp add: addKPI_kpiData uniqueMetrics_add)
  from u show "uniqueMetrics (kpiData (deleteKPI metric dm))"
    by (simp add: deleteKPI_def uniqueMetrics_def distinct_map_filter)
  assume "ku_metric updates = None \<or> ku_metric updates = Some metric"
  from updateKPI_metrics [OF this] u
  show "uniqueMetrics (kpiData (updateKPI metric updates dm))"
    by (simp add: uniqueMetrics_def)
qed

theorem indicator_operations_uniqueness_witness:
  "uniqueMetrics (kpiData (addKPI churn emptyStore))
   \<and> kpiData (addKPI churnLater (addKPI churn emptyStore)) = [churnLater]
   \<and> uniqueMetrics (kpiData (addKPI churnLater (addKPI churn emptyStore)))
   \<and> ku_metric (newValue 2) = None
   \<and> uniqueMetrics (kpiData (updateKPI ''Churn'' (newValue 2) (addKPI churn emptyStore)))
   \<and> uniqueMetrics (kpiData (deleteKPI ''Churn'' (addKPI churn emptyStore)))"
proof -
  have u: "uniqueMetrics (kpiData (addKPI churn emptyStore))"
    by (simp add: addKPI_kpiData emptyStore_fields uniqueMetrics_def)
  have k: "kpiData (addKPI churnLater (addKPI churn emptyStore)) = [churnLater]"
    by (simp add: addKPI_kpiData emptyStore_fields churn_def churnLater_def)
  have n: "ku_metric (newValue 2) = None" by (simp add: newValue_def)
  from indicator_operations_uniqueness
    [of "[]" "addKPI churn emptyStore" churnLater "''Churn''" "newValue 2"] u k n
  show ?thesis by simp
qed

subsection \<open>Sorting by date\<close>

lemma datesParse_Cons [simp]:
  "datesParse e (r # rs) = (env_getTime e (fr_date r) \<noteq> None \<and> datesParse e rs)"
  by (simp add: datesParse_def)

lemma datesParse_Nil [simp]: "datesParse e []"
  by (simp add: datesParse_def)

lemma datesParse_set: "datesParse e rs = (\<forall>r \<in> set rs. env_getTime e (fr_date r) \<noteq> None)"
  by (simp add: datesParse_def list_all_iff)

lemma compareByDate_le:
  assumes "env_getTime e (fr_date a) \<noteq> None" and "env_getTime e (fr_date b) \<noteq> None"
  shows "(compareByDate e a b \<le> 0) = (recordTime e a \<le> recordTime e b)"
  using assms by (auto simp: compareByDate_def recordTime_def)

text \<open>On dates that parse, the array sort is the library's stable sort by time value.\<close>

lemma insertSorted_insort_key:
  assumes "env_getTime e (fr_date x) \<noteq> None" and "datesParse e ys"
  shows "insertSorted (compareByDate e) x ys = insort_key (recordTime e) x ys"
  using assms by (induction ys) (simp_all add: compareByDate_le)

lemma arraySort_sort_key:
  "datesParse e xs \<Longrightarrow> arraySort (compareByDate e) xs = sort_key (recordTime e) xs"
proof (induction xs)
  case Nil
  then show ?case by (simp add: arraySort_def)
next
  case (Cons x xs)
  then have ih: "arraySort (compareByDate e) xs = sort_key (recordTime e) xs" by simp
  have "datesParse e (sort_key (recordTime e) xs)"
    using Cons.prems by (simp add: datesParse_set)
  with Cons.prems ih show ?case
    by (simp add: arraySort_def insertSorted_insort_key)
qed

lemma mset_arraySort: "mset (arraySort cmp xs) = mset xs"
proof -
  have "mset (insertSorted cmp x ys) = add_mset x (mset ys)" for x ys
    by (induction ys) simp_all
  then show ?thesis by (induction xs) (simp_all add: arraySort_def)
qed

lemma length_arraySort: "length (arraySort cmp xs) = length xs"
  using mset_arraySort [of cmp xs] by (metis size_mset)

lemma sort_key_sort_key_append:
  "sort_key f (sort_key f xs @ ys) = sort_key f (xs @ ys)"
proof (rule properties_for_sort_key)
  show "mset (sort_key f (xs @ ys)) = mset (sort_key f xs @ ys)" by simp
  show "sorted (map f (sort_key f (xs @ ys)))" by simp
  fix k
  have "filter (\<lambda>x. f k = f x) (sort_key f zs) = filter (\<lambda>x. f k = f x) zs" for zs
    using sort_key_stable [of f "f k" zs] by (simp add: eq_commute)
  then show "filter (\<lambda>x. f k = f x) (sort_key f (xs @ ys))
           = filter (\<lambda>x. f k = f x) (sort_key f xs @ ys)"
    by simp
qed

subsection \<open>Financial records\<close>

lemma addFinancialRecord_records:
  "financialRecords (addFinancialRecord e record dm) =
   addStep e (inputRecord e record) (financialRecords dm)"
  by (simp add: addFinancialRecord_def addStep_def inputRecord_def Let_def)

lemma addStep_sort_key:
  assumes "datesParse e rs" and "env_getTime e (fr_date r) \<noteq> None"
  shows "addStep e r rs = sort_key (recordTime e) (filter (\<lambda>x. fr_date x \<noteq> fr_date r) rs @ [r])"
proof -
  from assms have "datesParse e (filter (\<lambda>x. fr_date x \<noteq> fr_date r) rs @ [r])"
    by (auto simp: datesParse_set)
  then show ?thesis by (simp add: addStep_def arraySort_sort_key)
qed

lemma uniqueDates_pushed:
  "uniqueDates rs \<Longrightarrow> uniqueDates (filter (\<lambda>x. fr_date x \<noteq> fr_date r) rs @ [r])"
  by (auto simp: uniqueDates_def distinct_map_filter)

lemma uniqueDates_sort_key: "uniqueDates (sort_key f rs) = uniqueDates rs"
proof -
  have "mset (map fr_date (sort_key f rs)) = mset (map fr_date rs)" by simp
  then show ?thesis unfolding uniqueDates_def by (rule mset_eq_imp_distinct_iff)
qed

lemma addStep_invariant:
  assumes "uniqueDates rs" and "ascendingByDate e rs" and "env_getTime e (fr_date r) \<noteq> None"
  shows "uniqueDates (addStep e r rs) \<and> ascendingByDate e (addStep e r rs)"
proof -
  from assms have p: "datesParse e rs" by (simp add: ascendingByDate_def)
  note eq = addStep_sort_key [OF p assms(3)]
  from p assms(3) have "datesParse e (addStep e r rs)"
    by (auto simp: eq datesParse_set)
  moreover have "sorted (map (recordTime e) (addStep e r rs))" by (simp add: eq)
  moreover from assms(1) have "uniqueDates (addStep e r rs)"
    by (simp add: eq uniqueDates_sort_key uniqueDates_pushed)
  ultimately show ?thesis by (simp add: ascendingByDate_def)
qed

lemma length_filter_unique:
  "distinct (map f xs) \<Longrightarrow> k \<in> set (map f xs) \<Longrightarrow>
   Suc (length (filter (\<lambda>x. f x \<noteq> k) xs)) = length xs"
proof (induction xs)
  case Nil
  then show ?case by simp
next
  case (Cons x xs)
  show ?case
  proof (cases "f x = k")
    case True
    from Cons.prems(1) have "f x \<notin> f ` set xs" by simp
    with True have "\<forall>y \<in> set xs. f y \<noteq> k" by (metis imageI)
    then have "filter (\<lambda>x. f x \<noteq> k) xs = xs" by (simp add: filter_id_conv)
    with True show ?thesis by simp
  next
    case False
    with Cons show ?thesis by auto
  qed
qed

lemma addStep_length_replace:
  assumes "uniqueDates rs" and "fr_date r \<in> set (map fr_date rs)"
  shows "length (addStep e r rs) = length rs"
  using length_filter_unique [of fr_date rs "fr_date r"] assms
  by (simp add: addStep_def uniqueDates_def length_arraySort)

lemma addStep_holds_new:
  "filter (\<lambda>x. fr_date x = fr_date r) (addStep e r rs) = [r]"
proof -
  have "mset (filter (\<lambda>x. fr_date x = fr_date r) (addStep e r rs))
      = filter_mset (\<lambda>x. fr_date x = fr_date r) (mset (addStep e r rs))"
    by simp
  also have "\<dots> = {#r#}"
    by (simp add: addStep_def mset_arraySort filter_mset_eq_conv)
  finally show ?thesis by (simp only: mset_single_iff)
qed

lemma mergeRecord_date:
  "fu_date u = None \<or> fu_date u = Some (fr_date old) \<Longrightarrow>
   fr_date (mergeRecord old u) = fr_date old"
  by (auto simp: mergeRecord_def)

lemma updateFinancialRecord_dates:
  assumes "fu_date u = None \<or> fu_date u = Some d"
  shows "map fr_date (financialRecords (updateFinancialRecord d u dm))
       = map fr_date (financialRecords dm)"
proof (cases "findIndex (\<lambda>r. fr_date r = d) (financialRecords dm)")
  case None
  then show ?thesis by (simp add: updateFinancialRecord_def)
next
  case (Some i)
  from findIndex_Some [OF Some] have i: "i < length (financialRecords dm)"
    and d: "fr_date (financialRecords dm ! i) = d" by simp_all
  from assms d
  have "fr_date (mergeRecord (financialRecords dm ! i) u) = fr_date (financialRecords dm ! i)"
    by (intro mergeRecord_date) simp
  with i Some show ?thesis
    by (simp add: updateFinancialRecord_def map_update_same_key)
qed

lemma ascendingByDate_dates:
  "ascendingByDate e rs =
   (list_all (\<lambda>d. env_getTime e d \<noteq> None) (map fr_date rs)
    \<and> sorted (map (\<lambda>d. the (env_getTime e d)) (map fr_date rs)))"
  by (simp add: ascendingByDate_def datesParse_def list_all_iff comp_def recordTime_def [abs_def])

lemma ascendingByDate_filter:
  "ascendingByDate e rs \<Longrightarrow> ascendingByDate e (filter P rs)"
  by (auto simp: ascendingByDate_def datesParse_set sorted_filter)

lemma januaryStore_records: "financialRecords januaryStore = [january1, january2]"
  by (simp add: januaryStore_def addFinancialRecord_def recordInput_def orString_def
      emptyStore_fields january1_def january2_def arraySort_def compareByDate_def
      sampleEnv_def sampleGetTime_def)

lemma januaryStore_ordered:
  "uniqueDates (financialRecords januaryStore)"
  "ascendingByDate sampleEnv (financialRecords januaryStore)"
  by (simp_all add: januaryStore_records uniqueDates_def ascendingByDate_def recordTime_def
      january1_def january2_def sampleEnv_def sampleGetTime_def)

text \<open>
  \<open>updateFinancialRecord\<close> merges whatever fields it is given, the date among them, and
  neither looks for a record that already has the new date nor sorts. Moving the record
  of 1 January to 2 January leaves two records dated 2 January; moving it to 1 February
  leaves it in front of the record of 2 January.
\<close>

theorem updateFinancialRecord_redate_counterexample:
  "uniqueDates (getFinancialRecords januaryStore)
   \<and> ascendingByDate sampleEnv (getFinancialRecords januaryStore)
   \<and> map fr_date (getFinancialRecords
        (updateFinancialRecord ''2024-01-01'' (redate ''2024-01-02'') januaryStore))
       = [''2024-01-02'', ''2024-01-02'']
   \<and> \<not> uniqueDates (getFinancialRecords
        (updateFinancialRecord ''2024-01-01'' (redate ''2024-01-02'') januaryStore))
   \<and> map fr_date (getFinancialRecords
        (updateFinancialRecord ''2024-01-01'' (redate ''2024-02-01'') januaryStore))
       = [''2024-02-01'', ''2024-01-02'']
   \<and> \<not> ascendingByDate sampleEnv (getFinancialRecords
        (updateFinancialRecord ''2024-01-01'' (redate ''2024-02-01'') januaryStore))"
  by (simp add: getFinancialRecords_def januaryStore_ordered)
     (simp add: updateFinancialRecord_def januaryStore_records january1_def january2_def
      redate_def mergeRecord_def uniqueDates_def ascendingByDate_def recordTime_def
      sampleEnv_def sampleGetTime_def)

text \<open>
  C2, as the code has it. Take a collection in which no date occurs twice and whose
  dates parse and ascend in time. Adding a record whose date parses leaves such a
  collection; if the date was already there the length stays the same; in every case
  the collection then holds exactly one record with that date, the added one. Deleting
  by date leaves such a collection. An update that leaves the date as it is (no date
  among the updated fields, or the same date) leaves such a collection.
\<close>

theorem record_operations_keep_order:
  assumes "uniqueDates (financialRecords dm)" and "ascendingByDate e (financialRecords dm)"
  shows
    "(env_getTime e (orString (in_date record) (env_today e)) \<noteq> None \<longrightarrow>
        uniqueDates (financialRecords (addFinancialRecord e record dm))
        \<and> ascendingByDate e (financialRecords (addFinancialRecord e record dm)))
     \<and> (orString (in_date record) (env_today e) \<in> set (map fr_date (financialRecords dm)) \<longrightarrow>
        length (financialRecords (addFinancialRecord e record dm)) = length (financialRecords dm))
     \<and> filter (\<lambda>r. fr_date r = orString (in_date record) (env_today e))
            (financialRecords (addFinancialRecord e record dm))
          = [\<lparr>fr_date = orString (in_date record) (env_today e),
              fr_revenue = in_revenue record, fr_expenses = in_expenses record,
              fr_profit = in_profit record, fr_cashFlow = in_cashFlow record\<rparr>]
     \<and> uniqueDates (financialRecords (deleteFinancialRecord date dm))
     \<and> ascendingByDate e (financialRecords (deleteFinancialRecord date dm))
     \<and> (fu_date updates = None \<or> fu_date updates = Some date \<longrightarrow>
        uniqueDates (financialRecords (updateFinancialRecord date updates dm))
        \<and> ascendingByDate e (financialRecords (updateFinancialRecord date updates dm)))"
proof (intro conjI impI)
  let ?r = "inputRecord e record"
  have d: "fr_date ?r = orString (in_date record) (env_today e)" by (simp add: inputRecord_def)
  {
    assume "env_getTime e (orString (in_date record) (env_today e)) \<noteq> None"
    with addStep_invariant [OF assms, of ?r] d
    show "uniqueDates (financialRecords (addFinancialRecord e record dm))"
      and "ascendingByDate e (financialRecords (addFinancialRecord e record dm))"
      by (simp_all add: addFinancialRecord_records)
  }
  {
    assume "orString (in_date record) (env_today e) \<in> set (map fr_date (financialRecords dm))"
    with addStep_length_replace [OF assms(1), of ?r e] d
    show "length (financialRecords (addFinancialRecord e record dm)) = length (financialRecords dm)"
      by (simp add: addFinancialRecord_records)
  }
  show "uniqueDates (financialRecords (deleteFinancialRecord date dm))"
    using assms(1) by (simp add: deleteFinancialRecord_def uniqueDates_def distinct_map_filter)
  show "ascendingByDate e (financialRecords (deleteFinancialRecord date dm))"
    using assms(2) by (simp add: deleteFinancialRecord_def ascendingByDate_filter)
  {
    assume "fu_date updates = None \<or> fu_date updates = Some date"
    note eq = updateFinancialRecord_dates [OF this, of dm]
    from assms(1) eq show "uniqueDates (financialRecords (updateFinancialRecord date updates dm))"
      by (simp add: uniqueDates_def)
    from assms(2) eq
    show "ascendingByDate e (financialRecords (updateFinancialRecord date updates dm))"
      by (simp add: ascendingByDate_dates)
  }
  show "filter (\<lambda>r. fr_date r = orString (in_date record) (env_today e))
            (financialRecords (addFinancialRecord e record dm))
          = [\<lparr>fr_date = orString (in_date record) (env_today e),
              fr_revenue = in_revenue record, fr_expenses = in_expenses record,
              fr_profit = in_profit record, fr_cashFlow = in_cashFlow record\<rparr>]"
    using addStep_holds_new [of ?r e "financialRecords dm"]
    by (simp add: addFinancialRecord_records) (simp add: inputRecord_def)
qed

theorem record_operations_keep_order_witness:
  "uniqueDates (financialRecords januaryStore)
   \<and> ascendingByDate sampleEnv (financialRecords januaryStore)
   \<and> length (financialRecords januaryStore) = 2
   \<and> orString (in_date january1Revised) (env_today sampleEnv) = ''2024-01-01''
   \<and> env_getTime sampleEnv ''2024-01-01'' \<noteq> None
   \<and> ''2024-01-01'' \<in> set (map fr_date (financialRecords januaryStore))
   \<and> fu_date (newRevenue 105) = None
   \<and> uniqueDates (financialRecords (addFinancialRecord sampleEnv january1Revised januaryStore))
   \<and> ascendingByDate sampleEnv
        (financialRecords (addFinancialRecord sampleEnv january1Revised januaryStore))
   \<and> length (financialRecords (addFinancialRecord sampleEnv january1Revised januaryStore)) = 2
   \<and> uniqueDates (financialRecords (deleteFinancialRecord ''2024-01-01'' januaryStore))
   \<and> ascendingByDate sampleEnv (financialRecords (deleteFinancialRecord ''2024-01-01'' januaryStore))
   \<and> uniqueDates
        (financialRecords (updateFinancialRecord ''2024-01-01'' (newRevenue 105) januaryStore))
   \<and> ascendingByDate sampleEnv
        (financialRecords (updateFinancialRecord ''2024-01-01'' (newRevenue 105) januaryStore))"
proof -
  have d: "orString (in_date january1Revised) (env_today sampleEnv) = ''2024-01-01''"
    by (simp add: january1Revised_def orString_def)
  have t: "env_getTime sampleEnv ''2024-01-01'' \<noteq> None"
    by (simp add: sampleEnv_def sampleGetTime_def)
  have m: "''2024-01-01'' \<in> set (map fr_date (financialRecords januaryStore))"
    by (simp add: januaryStore_records january1_def)
  have l: "length (financialRecords januaryStore) = 2" by (simp add: januaryStore_records)
  have u: "fu_date (newRevenue 105) = None" by (simp add: newRevenue_def)
  from record_operations_keep_order
    [OF januaryStore_ordered, of january1Revised "''2024-01-01''" "newRevenue 105"]
    d t m l u januaryStore_ordered
  show ?thesis by simp
qed

subsection \<open>Decimal numerals\<close>

lemma numToString_small:
  "numToString 0 = ''0''" "numToString 1 = ''1''" "numToString 2 = ''2''" "numToString 3 = ''3''"
  "numToString 30 = ''30''" "numToString 35 = ''35''" "numToString 40 = ''40''"
  "numToString 50 = ''50''" "numToString 60 = ''60''" "numToString 70 = ''70''"
  "numToString 100 = ''100''" "numToString 120 = ''120''"
  by (simp_all add: numToString_def toStringRadix_def radixString.simps digitChar_def)

lemma digitChar_decimal:
  assumes "d < 10"
  shows "isDigit (digitChar d) \<and> digitValue (digitChar d) = d"
proof -
  from assms have "d = 0 \<or> d = 1 \<or> d = 2 \<or> d = 3 \<or> d = 4 \<or> d = 5 \<or> d = 6 \<or> d = 7
      \<or> d = 8 \<or> d = 9" by arith
  then show ?thesis
    by (elim disjE) (simp_all add: digitChar_def isDigit_def digitValue_def)
qed

lemma parseDigits_snoc:
  "isDigit c \<Longrightarrow>
   parseDigits acc (xs @ [c]) = map_option (\<lambda>v. v * 10 + digitValue c) (parseDigits acc xs)"
  by (induction xs arbitrary: acc) simp_all

lemma radixString_decimal:
  "parseDigits 0 (radixString 10 n) = Some n
   \<and> radixString 10 n \<noteq> [] \<and> (\<forall>c \<in> set (radixString 10 n). isDigit c)"
proof (induction "10::nat" n rule: radixString.induct)
  case (1 n)
  show ?case
  proof (cases "n < 10")
    case True
    then show ?thesis
      by (subst (1 2 3) radixString.simps) (simp add: digitChar_decimal)
  next
    case False
    then have m: "n mod 10 < 10" by simp
    from False 1 have ih: "parseDigits 0 (radixString 10 (n div 10)) = Some (n div 10)"
      "\<forall>c \<in> set (radixString 10 (n div 10)). isDigit c" by simp_all
    from False have eq: "radixString 10 n = radixString 10 (n div 10) @ [digitChar (n mod 10)]"
      by (subst radixString.simps) simp
    from ih digitChar_decimal [OF m] show ?thesis
      by (simp add: eq parseDigits_snoc)
  qed
qed

lemma isDigit_plain:
  "isDigit c \<Longrightarrow>
   c \<noteq> CHR '','' \<and> c \<noteq> CHR 0x22 \<and> c \<noteq> CHR 0x0A \<and> c \<noteq> CHR ''-'' \<and> c \<noteq> CHR ''+''
   \<and> \<not> isWhiteSpace c"
  by (auto simp: isDigit_def isWhiteSpace_def)

lemma numToString_chars:
  "c \<in> set (numToString n) \<Longrightarrow>
   c \<noteq> CHR '','' \<and> c \<noteq> CHR 0x22 \<and> c \<noteq> CHR 0x0A \<and> \<not> isWhiteSpace c"
  using radixString_decimal isDigit_plain
  by (auto simp: numToString_def toStringRadix_def isWhiteSpace_def split: if_splits)

lemma numToString_nonempty: "numToString n \<noteq> []"
  using radixString_decimal by (simp add: numToString_def toStringRadix_def)

lemma trim_id:
  assumes "s \<noteq> []" and "\<not> isWhiteSpace (hd s)" and "\<not> isWhiteSpace (last s)"
  shows "trim s = s"
proof -
  from assms(1,2) have a: "dropWhile isWhiteSpace s = s" by (cases s) simp_all
  from assms(1,3) have "dropWhile isWhiteSpace (rev s) = rev s"
    by (cases "rev s") (simp_all add: hd_rev [symmetric])
  with a show ?thesis by (simp add: trim_def)
qed

lemma trim_numToString: "trim (numToString n) = numToString n"
proof (rule trim_id)
  show ne: "numToString n \<noteq> []" by (rule numToString_nonempty)
  from ne have "hd (numToString n) \<in> set (numToString n)" by simp
  then show "\<not> isWhiteSpace (hd (numToString n))" using numToString_chars by blast
  from ne have "last (numToString n) \<in> set (numToString n)" by simp
  then show "\<not> isWhiteSpace (last (numToString n))" using numToString_chars by blast
qed

lemma unsignedDecimal_digits:
  assumes "ds \<noteq> []" and "\<forall>c \<in> set ds. isDigit c" and "parseDigits 0 ds = Some m"
  shows "unsignedDecimal ds = Some (int m)"
proof -
  from assms(2) have tw: "takeWhile isDigit ds = ds" and dw: "dropWhile isDigit ds = []"
    by simp_all
  from assms(1,3) show ?thesis
    unfolding unsignedDecimal_def Let_def tw dw
    by (simp add: exponentPart_def scaled_def)
qed

lemma radixPrefix_digit: "isDigit c \<Longrightarrow> radixPrefix c = None"
  by (auto simp: isDigit_def radixPrefix_def)

lemma nonDecimal_digits: "\<forall>c \<in> set ds. isDigit c \<Longrightarrow> nonDecimal ds = None"
  by (simp add: nonDecimal_def radixPrefix_digit split: list.splits)

lemma nonDecimal_minus: "nonDecimal (CHR ''-'' # ds) = None"
  by (simp add: nonDecimal_def split: list.splits)

lemma jsNumber_numToString: "jsNumber (numToString n) = Some n"
proof (cases "n < 0")
  case True
  let ?ds = "radixString 10 (nat (- n))"
  from radixString_decimal [of "nat (- n)"]
  have "unsignedDecimal ?ds = Some (int (nat (- n)))"
    by (intro unsignedDecimal_digits) simp_all
  with True show ?thesis
    unfolding jsNumber_def trim_numToString
    by (simp add: numToString_def toStringRadix_def nonDecimal_minus)
next
  case False
  let ?ds = "radixString 10 (nat n)"
  obtain c cs where cs: "?ds = c # cs"
    using radixString_decimal [of "nat n"] by (cases ?ds) auto
  from radixString_decimal [of "nat n"] have u: "unsignedDecimal ?ds = Some (int (nat n))"
    by (intro unsignedDecimal_digits) simp_all
  from radixString_decimal [of "nat n"] have nd: "nonDecimal ?ds = None"
    by (intro nonDecimal_digits) simp
  from radixString_decimal [of "nat n"] have "isDigit c" by (simp add: cs)
  then have "c \<noteq> CHR ''-''" "c \<noteq> CHR ''+''" using isDigit_plain by blast+
  with False u nd show ?thesis
    unfolding jsNumber_def trim_numToString
    by (simp add: numToString_def toStringRadix_def cs)
qed

subsection \<open>Splitting and joining\<close>

lemma splitOn_nosep: "c \<notin> set a \<Longrightarrow> splitOn c a = [a]"
  by (induction a) auto

lemma splitOn_append: "c \<notin> set a \<Longrightarrow> splitOn c (a @ c # rest) = a # splitOn c rest"
  by (induction a) auto

lemma splitOn_joinWith:
  "ls \<noteq> [] \<Longrightarrow> \<forall>l \<in> set ls. c \<notin> set l \<Longrightarrow> splitOn c (joinWith [c] ls) = ls"
  by (induction "[c]" ls rule: joinWith.induct) (simp_all add: splitOn_nosep splitOn_append)

lemma stripQuotes_id: "CHR 0x22 \<notin> set s \<Longrightarrow> stripQuotes s = s"
  by (auto simp: stripQuotes_def filter_id_conv)

subsection \<open>CSV lines\<close>

lemma plainDate_trim: "plainDate d \<Longrightarrow> trim d = d"
  by (simp add: plainDate_def trim_id)

lemma parseCells_header:
  "parseCells ''Date,Revenue,Expenses,Profit,Cash Flow''
   = [''Date'', ''Revenue'', ''Expenses'', ''Profit'', ''Cash Flow'']"
  by (simp add: parseCells_def trim_def stripQuotes_def isWhiteSpace_def)

lemma numToString_nosep: "c = CHR '','' \<or> c = CHR 0x22 \<or> c = CHR 0x0A \<Longrightarrow> c \<notin> set (numToString n)"
  using numToString_chars by blast

lemma splitOn_csvLine:
  assumes "plainDate (fr_date r)"
  shows "splitOn CHR '','' (csvLine r) =
     [fr_date r, numToString (fr_revenue r), numToString (fr_expenses r),
      numToString (fr_profit r), numToString (fr_cashFlow r)]"
proof -
  from assms have "CHR '','' \<notin> set (fr_date r)" by (simp add: plainDate_def)
  then show ?thesis
    by (simp add: csvLine_def splitOn_append splitOn_nosep numToString_nosep)
qed

lemma parseCells_csvLine:
  assumes "plainDate (fr_date r)"
  shows "parseCells (csvLine r) =
     [fr_date r, numToString (fr_revenue r), numToString (fr_expenses r),
      numToString (fr_profit r), numToString (fr_cashFlow r)]"
proof -
  from assms have "stripQuotes (fr_date r) = fr_date r"
    by (simp add: plainDate_def stripQuotes_id)
  moreover have "stripQuotes (numToString n) = numToString n" for n
    by (simp add: stripQuotes_id numToString_nosep)
  ultimately show ?thesis using assms
    by (simp add: parseCells_def splitOn_csvLine plainDate_trim trim_numToString)
qed

lemma numberOrZero_numToString: "numberOrZero (Some (numToString n)) = n"
  by (simp add: numberOrZero_def jsNumber_numToString orNumber_def)

lemma rowRecord_csvLine:
  assumes "plainDate (fr_date r)"
  shows "rowRecord [''Date'', ''Revenue'', ''Expenses'', ''Profit'', ''Cash Flow'']
           (parseCells (csvLine r)) = Some r"
proof -
  from assms have "fr_date r \<noteq> []" by (simp add: plainDate_def)
  then show ?thesis
    by (simp add: parseCells_csvLine [OF assms] rowRecord_def rowObject_def orElse_def
        orString_def numToString_nonempty numberOrZero_numToString)
qed

lemma parseRows_csvLines:
  "list_all (\<lambda>r. plainDate (fr_date r)) rs \<Longrightarrow>
   parseRows [''Date'', ''Revenue'', ''Expenses'', ''Profit'', ''Cash Flow''] (map csvLine rs) = rs"
  by (induction rs) (simp_all add: rowRecord_csvLine)

lemma csvLine_plain:
  assumes "plainDate (fr_date r)"
  shows "CHR 0x0A \<notin> set (csvLine r) \<and> trim (csvLine r) = csvLine r \<and> csvLine r \<noteq> []"
proof -
  from assms have d: "fr_date r \<noteq> []" "\<not> isWhiteSpace (hd (fr_date r))"
    "CHR 0x0A \<notin> set (fr_date r)" by (simp_all add: plainDate_def)
  have n: "numToString (fr_cashFlow r) \<noteq> []" by (rule numToString_nonempty)
  then have "last (numToString (fr_cashFlow r)) \<in> set (numToString (fr_cashFlow r))" by simp
  then have l: "\<not> isWhiteSpace (last (numToString (fr_cashFlow r)))"
    using numToString_chars by blast
  from d have ne: "csvLine r \<noteq> []" by (simp add: csvLine_def)
  from d have h: "hd (csvLine r) = hd (fr_date r)" by (simp add: csvLine_def)
  from n have e: "last (csvLine r) = last (numToString (fr_cashFlow r))"
    by (simp add: csvLine_def)
  have "trim (csvLine r) = csvLine r"
    by (rule trim_id) (simp_all add: ne h e d l)
  moreover from d have "CHR 0x0A \<notin> set (csvLine r)"
    by (simp add: csvLine_def numToString_nosep)
  ultimately show ?thesis using ne by simp
qed

lemma nonBlankLines_export:
  assumes "list_all (\<lambda>r. plainDate (fr_date r)) rs"
  shows "nonBlankLines (joinWith [CHR 0x0A]
           (''Date,Revenue,Expenses,Profit,Cash Flow'' # map csvLine rs))
         = ''Date,Revenue,Expenses,Profit,Cash Flow'' # map csvLine rs"
proof -
  let ?ls = "''Date,Revenue,Expenses,Profit,Cash Flow'' # map csvLine rs"
  from assms have a: "\<forall>l \<in> set (map csvLine rs). CHR 0x0A \<notin> set l \<and> trim l \<noteq> []"
    using csvLine_plain by (auto simp: list_all_iff)
  have h: "trim ''Date,Revenue,Expenses,Profit,Cash Flow'' \<noteq> []"
    by (simp add: trim_def isWhiteSpace_def)
  from a have "\<forall>l \<in> set ?ls. CHR 0x0A \<notin> set l" by simp
  then have "splitOn CHR 0x0A (joinWith [CHR 0x0A] ?ls) = ?ls"
    by (intro splitOn_joinWith) simp_all
  moreover from a h have "filter (\<lambda>line. trim line \<noteq> []) ?ls = ?ls"
    by (simp add: filter_id_conv)
  ultimately show ?thesis by (simp add: nonBlankLines_def)
qed

subsection \<open>Importing a list of records\<close>

lemma inputRecord_recordInput: "fr_date r \<noteq> [] \<Longrightarrow> inputRecord e (recordInput r) = r"
  by (simp add: inputRecord_def recordInput_def orString_def)

lemma fold_addFinancialRecord:
  "\<forall>r \<in> set rs. fr_date r \<noteq> [] \<Longrightarrow>
   financialRecords (fold (\<lambda>record. addFinancialRecord e (recordInput record)) rs dm)
   = fold (addStep e) rs (financialRecords dm)"
  by (induction rs arbitrary: dm)
     (simp_all add: addFinancialRecord_records inputRecord_recordInput)

lemma fold_addStep_sorted:
  assumes "uniqueDates q" and "datesParse e q" and "datesParse e ys"
  shows "fold (addStep e) q (sort_key (recordTime e) ys)
       = sort_key (recordTime e) (filter (\<lambda>x. fr_date x \<notin> fr_date ` set q) ys @ q)"
  using assms
proof (induction q arbitrary: ys)
  case Nil
  then show ?case by simp
next
  case (Cons r q)
  let ?t = "recordTime e"
  let ?ys = "filter (\<lambda>x. fr_date x \<noteq> fr_date r) ys @ [r]"
  from Cons.prems have r: "env_getTime e (fr_date r) \<noteq> None" and q: "datesParse e q"
    and u: "uniqueDates q" and nr: "fr_date r \<notin> fr_date ` set q"
    by (simp_all add: uniqueDates_def)
  from Cons.prems(3) have "datesParse e (sort_key ?t ys)" by (simp add: datesParse_set)
  from addStep_sort_key [OF this r]
  have "addStep e r (sort_key ?t ys) = sort_key ?t ?ys"
    by (simp add: filter_sort sort_key_sort_key_append)
  moreover from Cons.prems(3) r have "datesParse e ?ys" by (auto simp: datesParse_set)
  from Cons.IH [OF u q this]
  have "fold (addStep e) q (sort_key ?t ?ys)
      = sort_key ?t (filter (\<lambda>x. fr_date x \<notin> fr_date ` set q) ?ys @ q)" .
  moreover have "filter (\<lambda>x. fr_date x \<notin> fr_date ` set q) ?ys @ q
      = filter (\<lambda>x. fr_date x \<notin> fr_date ` set (r # q)) ys @ r # q"
    using nr by (simp add: conj_commute)
  ultimately show ?case by simp
qed

lemma fold_addStep:
  assumes "q \<noteq> []" and "uniqueDates q" and "datesParse e q" and "datesParse e xs"
  shows "fold (addStep e) q xs
       = sort_key (recordTime e) (filter (\<lambda>x. fr_date x \<notin> fr_date ` set q) xs @ q)"
proof -
  from assms(1) obtain r q' where q: "q = r # q'" by (cases q) auto
  let ?t = "recordTime e"
  let ?ys = "filter (\<lambda>x. fr_date x \<noteq> fr_date r) xs @ [r]"
  from assms q have r: "env_getTime e (fr_date r) \<noteq> None" and q': "datesParse e q'"
    and u: "uniqueDates q'" and nr: "fr_date r \<notin> fr_date ` set q'"
    by (simp_all add: uniqueDates_def)
  from addStep_sort_key [OF assms(4) r] have "addStep e r xs = sort_key ?t ?ys" .
  moreover from assms(4) r have "datesParse e ?ys" by (auto simp: datesParse_set)
  from fold_addStep_sorted [OF u q' this]
  have "fold (addStep e) q' (sort_key ?t ?ys)
      = sort_key ?t (filter (\<lambda>x. fr_date x \<notin> fr_date ` set q') ?ys @ q')" .
  moreover have "filter (\<lambda>x. fr_date x \<notin> fr_date ` set q') ?ys @ q'
      = filter (\<lambda>x. fr_date x \<notin> fr_date ` set (r # q')) xs @ r # q'"
    using nr by (simp add: conj_commute)
  ultimately show ?thesis by (simp add: q)
qed

lemma fold_addStep_same:
  assumes "rs \<noteq> []" and "uniqueDates rs" and "ascendingByDate e rs"
    and "set (map fr_date xs) \<subseteq> set (map fr_date rs)"
  shows "fold (addStep e) rs xs = rs"
proof -
  from assms(3) have p: "datesParse e rs" and s: "sorted (map (recordTime e) rs)"
    by (simp_all add: ascendingByDate_def)
  from assms(4) p have px: "datesParse e xs"
    by (auto simp: datesParse_set)
  from assms(4) have "filter (\<lambda>x. fr_date x \<notin> fr_date ` set rs) xs = []"
    by (auto simp: filter_empty_conv)
  with fold_addStep [OF assms(1,2) p px] s show ?thesis
    by (simp add: sort_key_id_if_sorted)
qed

subsection \<open>CSV import\<close>

text \<open>
  C9. \<open>importFromCSV\<close> splits the text into lines and drops the blank ones. With fewer
  than two lines left it returns the failure result with the message that a header and
  one data row are required, and the store is unchanged. With two or more it parses: the
  first line gives the headers, the others the rows, and the records found are added to
  the store.
\<close>

theorem importFromCSV_line_check:
  "(length (nonBlankLines text) < 2 \<longrightarrow>
      importFromCSV e (Inr text) dm =
        (\<lparr>success = False,
          message = ''CSV file must have at least a header and one data row''\<rparr>, dm))
   \<and> (2 \<le> length (nonBlankLines text) \<longrightarrow>
      importFromCSV e (Inr text) dm =
        (\<lparr>success = True,
          message = ''Successfully imported ''
            @ numToString (int (length
                (parseRows (parseCells (hd (nonBlankLines text))) (tl (nonBlankLines text)))))
            @ '' financial records''\<rparr>,
         fold (\<lambda>record. addFinancialRecord e (recordInput record))
           (parseRows (parseCells (hd (nonBlankLines text))) (tl (nonBlankLines text))) dm))"
  by (simp add: importFromCSV_def Let_def)

lemma nonBlankLines_headerOnly:
  "nonBlankLines headerOnlyCsv = [''Date,Revenue,Expenses,Profit,Cash Flow'']"
  by (simp add: nonBlankLines_def headerOnlyCsv_def trim_def isWhiteSpace_def)

lemma nonBlankLines_sampleCsv:
  "nonBlankLines sampleCsv =
     [''Date,Revenue,Expenses,Profit,Cash Flow'', ''2024-01-01,100,60,40,30'']"
  by (simp add: nonBlankLines_def sampleCsv_def trim_def isWhiteSpace_def)

lemma csvLine_january1: "csvLine january1 = ''2024-01-01,100,60,40,30''"
  by (simp add: csvLine_def january1_def numToString_small)

lemma plainDate_january: "plainDate ''2024-01-01''" "plainDate ''2024-01-02''"
  by (simp_all add: plainDate_def isWhiteSpace_def)

lemma parseRows_sampleCsv:
  "parseRows (parseCells ''Date,Revenue,Expenses,Profit,Cash Flow'') [''2024-01-01,100,60,40,30'']
   = [january1]"
  using rowRecord_csvLine [of january1] plainDate_january
  by (simp add: parseCells_header csvLine_january1) (simp add: january1_def)

theorem importFromCSV_line_check_witness:
  "length (nonBlankLines headerOnlyCsv) < 2
   \<and> importFromCSV sampleEnv (Inr headerOnlyCsv) acmeStore =
       (\<lparr>success = False,
         message = ''CSV file must have at least a header and one data row''\<rparr>, acmeStore)
   \<and> 2 \<le> length (nonBlankLines sampleCsv)
   \<and> fst (importFromCSV sampleEnv (Inr sampleCsv) emptyStore) =
       \<lparr>success = True, message = ''Successfully imported 1 financial records''\<rparr>
   \<and> financialRecords (snd (importFromCSV sampleEnv (Inr sampleCsv) emptyStore)) = [january1]"
proof -
  have a: "length (nonBlankLines headerOnlyCsv) < 2" by (simp add: nonBlankLines_headerOnly)
  have b: "2 \<le> length (nonBlankLines sampleCsv)" by (simp add: nonBlankLines_sampleCsv)
  from importFromCSV_line_check [of headerOnlyCsv sampleEnv acmeStore] a
  have c: "importFromCSV sampleEnv (Inr headerOnlyCsv) acmeStore =
       (\<lparr>success = False,
         message = ''CSV file must have at least a header and one data row''\<rparr>, acmeStore)"
    by blast
  have rows: "parseRows (parseCells (hd (nonBlankLines sampleCsv))) (tl (nonBlankLines sampleCsv))
      = [january1]"
    by (simp only: nonBlankLines_sampleCsv list.sel parseRows_sampleCsv)
  from importFromCSV_line_check [of sampleCsv sampleEnv emptyStore] b
  have "importFromCSV sampleEnv (Inr sampleCsv) emptyStore =
        (\<lparr>success = True,
          message = ''Successfully imported ''
            @ numToString (int (length
                (parseRows (parseCells (hd (nonBlankLines sampleCsv))) (tl (nonBlankLines sampleCsv)))))
            @ '' financial records''\<rparr>,
         fold (\<lambda>record. addFinancialRecord sampleEnv (recordInput record))
           (parseRows (parseCells (hd (nonBlankLines sampleCsv))) (tl (nonBlankLines sampleCsv)))
           emptyStore)"
    by blast
  then have d: "fst (importFromCSV sampleEnv (Inr sampleCsv) emptyStore) =
       \<lparr>success = True, message = ''Successfully imported 1 financial records''\<rparr>
   \<and> financialRecords (snd (importFromCSV sampleEnv (Inr sampleCsv) emptyStore)) = [january1]"
    unfolding rows
    by (simp add: numToString_small addFinancialRecord_records addStep_def arraySort_def
        emptyStore_fields inputRecord_recordInput january1_def)
  from a b c d show ?thesis by blast
qed

subsection \<open>CSV round trip\<close>

lemma commaStore_records: "financialRecords commaStore = [commaRecord]"
  by (simp add: commaStore_def addFinancialRecord_records addStep_def arraySort_def
      emptyStore_fields inputRecord_recordInput commaRecord_def)

lemma csvLine_commaRecord: "csvLine commaRecord = ''Jan 1, 2024,100,60,40,30''"
  by (simp add: csvLine_def commaRecord_def numToString_small)

lemma nonBlankLines_commaCsv:
  "nonBlankLines commaCsv =
     [''Date,Revenue,Expenses,Profit,Cash Flow'', ''Jan 1, 2024,100,60,40,30'']"
  by (simp add: nonBlankLines_def commaCsv_def trim_def isWhiteSpace_def)

lemma jsNumber_small:
  "jsNumber ''2024'' = Some 2024" "jsNumber ''100'' = Some 100" "jsNumber ''60'' = Some 60"
  "jsNumber ''40'' = Some 40"
  by (simp_all add: jsNumber_def trim_def isWhiteSpace_def isDigit_def digitValue_def
      nonDecimal_def radixPrefix_def unsignedDecimal_def exponentPart_def scaled_def Let_def)

lemma parseCells_commaLine:
  "parseCells ''Jan 1, 2024,100,60,40,30'' = [''Jan 1'', ''2024'', ''100'', ''60'', ''40'', ''30'']"
  by (simp add: parseCells_def trim_def stripQuotes_def isWhiteSpace_def)

lemma parseRows_commaCsv:
  "parseRows (parseCells ''Date,Revenue,Expenses,Profit,Cash Flow'') [''Jan 1, 2024,100,60,40,30'']
   = [\<lparr>fr_date = ''Jan 1'', fr_revenue = 2024, fr_expenses = 100, fr_profit = 60,
        fr_cashFlow = 40\<rparr>]"
  by (simp add: parseCells_header parseCells_commaLine rowRecord_def rowObject_def orElse_def
      orString_def numberOrZero_def orNumber_def jsNumber_small)

text \<open>
  The export writes the fields unquoted and the import splits at every comma. A record
  dated \<open>Jan 1, 2024\<close> comes back dated \<open>Jan 1\<close>, with 2024 as its revenue and the
  other amounts moved one column to the right. An empty collection is not exported at
  all.
\<close>

theorem csv_round_trip_comma_counterexample:
  "getFinancialRecords commaStore = [commaRecord]
   \<and> fr_date commaRecord = ''Jan 1, 2024''
   \<and> map_option dl_content (exportToCSV sampleEnv commaStore) = Some commaCsv
   \<and> getFinancialRecords (snd (importFromCSV sampleEnv (Inr commaCsv) emptyStore))
       = [\<lparr>fr_date = ''Jan 1'', fr_revenue = 2024, fr_expenses = 100, fr_profit = 60,
            fr_cashFlow = 40\<rparr>]
   \<and> getFinancialRecords (snd (importFromCSV sampleEnv (Inr commaCsv) emptyStore))
       \<noteq> getFinancialRecords commaStore
   \<and> length (getFinancialRecords (snd (importFromCSV sampleEnv (Inr commaCsv) commaStore))) = 2
   \<and> getFinancialRecords emptyStore = [] \<and> exportToCSV sampleEnv emptyStore = None"
proof -
  have rows: "parseRows (parseCells (hd (nonBlankLines commaCsv))) (tl (nonBlankLines commaCsv))
      = [\<lparr>fr_date = ''Jan 1'', fr_revenue = 2024, fr_expenses = 100, fr_profit = 60,
           fr_cashFlow = 40\<rparr>]"
    by (simp only: nonBlankLines_commaCsv list.sel parseRows_commaCsv)
  have len: "\<not> length (nonBlankLines commaCsv) < 2" by (simp add: nonBlankLines_commaCsv)
  have e: "map_option dl_content (exportToCSV sampleEnv commaStore) = Some commaCsv"
    by (simp add: exportToCSV_def commaStore_records csvLine_commaRecord commaCsv_def)
  have i: "financialRecords (snd (importFromCSV sampleEnv (Inr commaCsv) emptyStore))
       = [\<lparr>fr_date = ''Jan 1'', fr_revenue = 2024, fr_expenses = 100, fr_profit = 60,
            fr_cashFlow = 40\<rparr>]"
    using len
    by (simp add: importFromCSV_def Let_def rows addFinancialRecord_records addStep_def
        arraySort_def emptyStore_fields inputRecord_def recordInput_def orString_def)
  have j: "length (financialRecords (snd (importFromCSV sampleEnv (Inr commaCsv) commaStore))) = 2"
    using len
    by (simp add: importFromCSV_def Let_def rows addFinancialRecord_records addStep_def
        length_arraySort commaStore_records inputRecord_def recordInput_def orString_def
        commaRecord_def)
  from e i j show ?thesis
    by (simp add: getFinancialRecords_def commaStore_records emptyStore_fields exportToCSV_def)
       (simp add: commaRecord_def)
qed

text \<open>
  C6, as the code has it. Take a store whose record collection is not empty, has no date
  twice, has dates that parse and ascend in time, and has plain date strings: not empty,
  free of commas, double quotes and line feeds, with no white space at either end. Then
  \<open>exportToCSV\<close> produces the header line followed by one line per record, and
  importing that text into a store whose record dates all occur in the exported
  collection (the same store, or an empty one) succeeds, reports as many records as were
  exported, and leaves exactly the exported collection. A store with no records exports
  nothing.
\<close>

theorem csv_round_trip:
  assumes "financialRecords dm \<noteq> []"
    and "uniqueDates (financialRecords dm)"
    and "ascendingByDate e (financialRecords dm)"
    and "list_all (\<lambda>r. plainDate (fr_date r)) (financialRecords dm)"
    and "set (map fr_date (financialRecords target)) \<subseteq> set (map fr_date (financialRecords dm))"
  shows "(\<exists>out. exportToCSV e' dm = Some out
     \<and> dl_content out = joinWith [CHR 0x0A]
          (''Date,Revenue,Expenses,Profit,Cash Flow'' # map csvLine (financialRecords dm))
     \<and> fst (importFromCSV e (Inr (dl_content out)) target) =
          \<lparr>success = True,
           message = ''Successfully imported ''
             @ numToString (int (length (financialRecords dm))) @ '' financial records''\<rparr>
     \<and> financialRecords (snd (importFromCSV e (Inr (dl_content out)) target))
         = financialRecords dm)
   \<and> (financialRecords other = [] \<longrightarrow> exportToCSV e' other = None)"
proof -
  let ?rs = "financialRecords dm"
  let ?text = "joinWith [CHR 0x0A] (''Date,Revenue,Expenses,Profit,Cash Flow'' # map csvLine ?rs)"
  from assms(1) obtain out where f: "exportToCSV e' dm = Some out" "dl_content out = ?text"
    by (simp add: exportToCSV_def)
  have lines: "nonBlankLines ?text = ''Date,Revenue,Expenses,Profit,Cash Flow'' # map csvLine ?rs"
    by (rule nonBlankLines_export [OF assms(4)])
  have "length (nonBlankLines ?text) = Suc (length ?rs)"
    by (simp only: lines length_Cons length_map)
  with assms(1) have len: "\<not> length (nonBlankLines ?text) < 2" by simp
  have rows: "parseRows (parseCells (hd (nonBlankLines ?text))) (tl (nonBlankLines ?text)) = ?rs"
    by (simp only: lines list.sel parseCells_header parseRows_csvLines [OF assms(4)])
  from assms(4) have ne: "\<forall>r \<in> set ?rs. fr_date r \<noteq> []"
    by (auto simp: list_all_iff plainDate_def)
  have "financialRecords (fold (\<lambda>record. addFinancialRecord e (recordInput record)) ?rs target)
      = ?rs"
    by (simp only: fold_addFinancialRecord [OF ne] fold_addStep_same [OF assms(1,2,3,5)])
  with len rows have "fst (importFromCSV e (Inr ?text) target) =
          \<lparr>success = True,
           message = ''Successfully imported ''
             @ numToString (int (length ?rs)) @ '' financial records''\<rparr>
     \<and> financialRecords (snd (importFromCSV e (Inr ?text) target)) = ?rs"
    by (simp add: importFromCSV_def Let_def)
  with f have "\<exists>out. exportToCSV e' dm = Some out
     \<and> dl_content out = ?text
     \<and> fst (importFromCSV e (Inr (dl_content out)) target) =
          \<lparr>success = True,
           message = ''Successfully imported ''
             @ numToString (int (length ?rs)) @ '' financial records''\<rparr>
     \<and> financialRecords (snd (importFromCSV e (Inr (dl_content out)) target)) = ?rs"
    by auto
  moreover have "financialRecords other = [] \<longrightarrow> exportToCSV e' other = None"
    by (simp add: exportToCSV_def)
  ultimately show ?thesis by blast
qed

lemma csvLine_january2: "csvLine january2 = ''2024-01-02,120,70,50,35''"
  by (simp add: csvLine_def january2_def numToString_small)

theorem csv_round_trip_witness:
  "financialRecords januaryStore = [january1, january2]
   \<and> uniqueDates (financialRecords januaryStore)
   \<and> ascendingByDate sampleEnv (financialRecords januaryStore)
   \<and> list_all (\<lambda>r. plainDate (fr_date r)) (financialRecords januaryStore)
   \<and> set (map fr_date (financialRecords emptyStore))
       \<subseteq> set (map fr_date (financialRecords januaryStore))
   \<and> map_option dl_content (exportToCSV sampleEnv januaryStore) = Some januaryCsv
   \<and> financialRecords (snd (importFromCSV sampleEnv (Inr januaryCsv) januaryStore))
       = [january1, january2]
   \<and> financialRecords (snd (importFromCSV sampleEnv (Inr januaryCsv) emptyStore))
       = [january1, january2]
   \<and> financialRecords emptyStore = [] \<and> exportToCSV sampleEnv emptyStore = None"
proof -
  have ne: "financialRecords januaryStore \<noteq> []" by (simp add: januaryStore_records)
  have pl: "list_all (\<lambda>r. plainDate (fr_date r)) (financialRecords januaryStore)"
    by (simp add: januaryStore_records january1_def january2_def plainDate_january)
  have sub: "set (map fr_date (financialRecords emptyStore))
       \<subseteq> set (map fr_date (financialRecords januaryStore))"
    by (simp add: emptyStore_fields)
  have ex: "map_option dl_content (exportToCSV sampleEnv januaryStore) = Some januaryCsv"
    by (simp add: exportToCSV_def januaryStore_records csvLine_january1 csvLine_january2
        januaryCsv_def)
  from csv_round_trip [OF ne januaryStore_ordered pl subset_refl, where e' = sampleEnv] ex
  have a: "financialRecords (snd (importFromCSV sampleEnv (Inr januaryCsv) januaryStore))
       = financialRecords januaryStore" by auto
  from csv_round_trip [OF ne januaryStore_ordered pl sub, where e' = sampleEnv] ex
  have b: "financialRecords (snd (importFromCSV sampleEnv (Inr januaryCsv) emptyStore))
       = financialRecords januaryStore" by auto
  have em: "financialRecords emptyStore = []" by (simp add: emptyStore_fields)
  from csv_round_trip [OF ne januaryStore_ordered pl sub,
      where e' = sampleEnv and other = emptyStore] em
  have c: "exportToCSV sampleEnv emptyStore = None" by blast
  from a b c em ex pl sub januaryStore_ordered show ?thesis
    by (simp add: januaryStore_records)
qed

subsection \<open>Spreadsheet import\<close>

lemma addFinancialRecord_kpiData [simp]: "kpiData (addFinancialRecord e r dm) = kpiData dm"
  by (simp add: addFinancialRecord_def Let_def)

lemma setBusinessData_kpiData [simp]: "kpiData (setBusinessData e p dm) = kpiData dm"
  by (simp add: setBusinessData_def Let_def)

lemma importRecordRows_kpiData:
  "kpiData (fst (importRecordRows e rows (dm, n))) = kpiData dm"
  by (induction rows arbitrary: dm n) simp_all

lemma importRecordRows_count:
  "snd (importRecordRows e rows (dm, n)) = n + length (filter hasDate rows)"
  by (induction rows arbitrary: dm n) simp_all

lemma importRecordRows_result:
  assumes "importRecordRows e rows (dm, n) = (dm', n')"
  shows "kpiData dm' = kpiData dm \<and> n' = n + length (filter hasDate rows)"
  using importRecordRows_kpiData [of e rows dm n] importRecordRows_count [of e rows dm n] assms
  by simp

lemma importFromExcel_message:
  "fst (importFromExcel e (Inr wb) dm) =
     \<lparr>success = True,
      message = ''Successfully imported ''
        @ numToString (int (profileRowCount wb + recordRowCount wb + indicatorCount wb))
        @ '' records''\<rparr>"
  by (auto simp: importFromExcel_def Let_def profileRowCount_def recordRowCount_def
      indicatorCount_def split: option.splits list.splits prod.splits
      dest!: importRecordRows_result)

lemma importFromExcel_kpiData:
  "kpiData (snd (importFromExcel e (Inr wb) dm)) =
     (case sheetOf wb ''KPIs'' ''Metrics'' of
        None \<Rightarrow> kpiData dm
      | Some rows \<Rightarrow> if sheetKPIs rows = [] then kpiData dm else sheetKPIs rows)"
  by (auto simp: importFromExcel_def Let_def setKPIData_def
      split: option.splits list.splits prod.splits
      dest!: importRecordRows_result)

lemma importRecordRows_store:
  "fst (importRecordRows e rows (dm, n)) =
   fold (\<lambda>r. addFinancialRecord e (financialRow r)) (filter hasDate rows) dm"
  by (induction rows arbitrary: dm n) simp_all

lemma importRecordRows_outcome:
  assumes "importRecordRows e rows (dm, n) = (dm', n')"
  shows "dm' = fold (\<lambda>r. addFinancialRecord e (financialRow r)) (filter hasDate rows) dm
       \<and> n' = n + length (filter hasDate rows)"
  using importRecordRows_store [of e rows dm n] importRecordRows_count [of e rows dm n] assms
  by simp

lemma importFromExcel_store:
  "snd (importFromExcel e (Inr wb) dm) =
     (let dm1 = (case sheetOf wb ''Business Data'' ''Company'' of
                   None \<Rightarrow> dm
                 | Some [] \<Rightarrow> dm
                 | Some (r # rest) \<Rightarrow> setBusinessData e (businessRow r) dm);
          dm2 = (case sheetOf wb ''Financial Records'' ''Financials'' of
                   None \<Rightarrow> dm1
                 | Some rows \<Rightarrow>
                     fold (\<lambda>r. addFinancialRecord e (financialRow r)) (filter hasDate rows) dm1)
      in case sheetOf wb ''KPIs'' ''Metrics'' of
           None \<Rightarrow> dm2
         | Some rows \<Rightarrow> if sheetKPIs rows = [] then dm2 else setKPIData (sheetKPIs rows) dm2)"
  by (auto simp: importFromExcel_def Let_def
      split: option.splits list.splits prod.splits
      dest!: importRecordRows_outcome)

lemma addFinancialRecord_businessData [simp]:
  "businessData (addFinancialRecord e r dm) = businessData dm"
  by (simp add: addFinancialRecord_def Let_def)

lemma fold_addFinancialRecord_businessData [simp]:
  "businessData (fold (\<lambda>x. addFinancialRecord e (f x)) xs dm) = businessData dm"
  by (induction xs arbitrary: dm) simp_all

lemma setKPIData_other [simp]:
  "businessData (setKPIData ks dm) = businessData dm"
  "financialRecords (setKPIData ks dm) = financialRecords dm"
  by (simp_all add: setKPIData_def)

lemma setBusinessData_financialRecords [simp]:
  "financialRecords (setBusinessData e p dm) = financialRecords dm"
  by (simp add: setBusinessData_def Let_def)

lemma fold_addFinancialRecord_steps:
  "financialRecords (fold (\<lambda>x. addFinancialRecord e (f x)) xs dm)
   = fold (\<lambda>x. addStep e (inputRecord e (f x))) xs (financialRecords dm)"
  by (induction xs arbitrary: dm) (simp_all add: addFinancialRecord_records)

lemma addStep_dates:
  "fr_date ` set (addStep e r rs) = insert (fr_date r) (fr_date ` set rs)"
proof -
  have "set (addStep e r rs) = set (filter (\<lambda>x. fr_date x \<noteq> fr_date r) rs @ [r])"
    unfolding addStep_def using mset_arraySort by (metis set_mset_mset)
  then show ?thesis by auto
qed

lemma fold_addStep_dates:
  "fr_date ` set (fold (\<lambda>x. addStep e (g x)) xs rs)
   = fr_date ` set rs \<union> (\<lambda>x. fr_date (g x)) ` set xs"
proof (induction xs arbitrary: rs)
  case Nil
  show ?case by simp
next
  case (Cons a xs)
  show ?case by (simp add: Cons.IH addStep_dates)
qed

lemma truthy_cellText: "truthy c \<Longrightarrow> \<exists>s. cellText c = Some s \<and> s \<noteq> []"
  by (auto simp: truthy_def cellText_def numToString_nonempty split: option.splits cell.splits)

lemma hasDate_rowDate:
  assumes "hasDate r"
  shows "fr_date (inputRecord e (financialRow r)) = rowDate r"
proof -
  from assms truthy_cellText
  obtain s where "cellText (cellOr (map_of r ''Date'') (map_of r ''date'')) = Some s" "s \<noteq> []"
    unfolding hasDate_def by blast
  then show ?thesis
    by (simp add: inputRecord_def financialRow_def rowDate_def orString_def)
qed

lemma setBusinessData_businessRow:
  "businessData (setBusinessData e (businessRow r) dm) =
     Some \<lparr>bd_id = generateId e,
           bd_companyName =
             orString (cellText (cellOr (map_of r ''Company Name'') (map_of r ''companyName''))) [],
           bd_industry =
             orString (cellText (cellOr (map_of r ''Industry'') (map_of r ''industry''))) [],
           bd_employees = cellNumberOrZero (cellOr (map_of r ''Employees'') (map_of r ''employees'')),
           bd_revenue = cellNumberOrZero (cellOr (map_of r ''Revenue'') (map_of r ''revenue'')),
           bd_costs = cellNumberOrZero (cellOr (map_of r ''Costs'') (map_of r ''costs'')),
           bd_assets = cellNumberOrZero (cellOr (map_of r ''Assets'') (map_of r ''assets'')),
           bd_liabilities =
             cellNumberOrZero (cellOr (map_of r ''Liabilities'') (map_of r ''liabilities'')),
           bd_cashFlow = cellNumberOrZero (cellOr (map_of r ''Cash Flow'') (map_of r ''cashFlow'')),
           bd_createdAt = env_now e,
           bd_updatedAt = env_now e\<rparr>"
  by (simp add: setBusinessData_def businessRow_def Let_def orString_def orNumber_def orDate_def)

text \<open>
  C8. When reading and parsing the file raise no exception, \<open>importFromExcel\<close> returns a
  success result, and the count in its message is 1 if the profile sheet has a first row,
  plus the number of rows of the records sheet that carry a date, plus the number of
  rows of the indicators sheet that carry a metric name. A workbook with none of the
  sheets gives the count 0, still succeeds, and leaves the store as it was.

  What is counted is what reaches the store. A first profile row becomes the profile, with
  a new id and the current time as \<open>createdAt\<close> and \<open>updatedAt\<close>; without one the profile
  stays. The record collection afterwards is the one obtained by adding the rows that
  carry a date, one \<open>addFinancialRecord\<close> each in sheet order, and its dates are the
  earlier dates together with the dates of those rows; without a records sheet it
  stays. The indicators counted are the new indicator collection; with none counted the
  collection stays.
\<close>

theorem importFromExcel_count:
  "fst (importFromExcel e (Inr wb) dm) =
     \<lparr>success = True,
      message = ''Successfully imported ''
        @ numToString (int (profileRowCount wb + recordRowCount wb + indicatorCount wb))
        @ '' records''\<rparr>
   \<and> (sheetOf wb ''Business Data'' ''Company'' = None
      \<and> sheetOf wb ''Financial Records'' ''Financials'' = None
      \<and> sheetOf wb ''KPIs'' ''Metrics'' = None \<longrightarrow>
      fst (importFromExcel e (Inr wb) dm) =
        \<lparr>success = True, message = ''Successfully imported 0 records''\<rparr>
      \<and> snd (importFromExcel e (Inr wb) dm) = dm)
   \<and> (\<forall>r rest.
        sheetOf wb ''Business Data'' ''Company'' = Some (r # rest)
        \<and> textual r [''Company Name'', ''companyName'', ''Industry'', ''industry''] \<longrightarrow>
        profileRowCount wb = 1
        \<and> businessData (snd (importFromExcel e (Inr wb) dm)) =
            Some \<lparr>bd_id = generateId e,
              bd_companyName =
                orString (cellText (cellOr (map_of r ''Company Name'') (map_of r ''companyName''))) [],
              bd_industry =
                orString (cellText (cellOr (map_of r ''Industry'') (map_of r ''industry''))) [],
              bd_employees =
                cellNumberOrZero (cellOr (map_of r ''Employees'') (map_of r ''employees'')),
              bd_revenue = cellNumberOrZero (cellOr (map_of r ''Revenue'') (map_of r ''revenue'')),
              bd_costs = cellNumberOrZero (cellOr (map_of r ''Costs'') (map_of r ''costs'')),
              bd_assets = cellNumberOrZero (cellOr (map_of r ''Assets'') (map_of r ''assets'')),
              bd_liabilities =
                cellNumberOrZero (cellOr (map_of r ''Liabilities'') (map_of r ''liabilities'')),
              bd_cashFlow =
                cellNumberOrZero (cellOr (map_of r ''Cash Flow'') (map_of r ''cashFlow'')),
              bd_createdAt = env_now e,
              bd_updatedAt = env_now e\<rparr>)
   \<and> (profileRowCount wb = 0 \<longrightarrow>
        businessData (snd (importFromExcel e (Inr wb) dm)) = businessData dm)
   \<and> (\<forall>rows.
        sheetOf wb ''Financial Records'' ''Financials'' = Some rows
        \<and> (\<forall>r \<in> set rows. textual r [''Date'', ''date'']) \<longrightarrow>
        recordRowCount wb = length (filter hasDate rows)
        \<and> financialRecords (snd (importFromExcel e (Inr wb) dm)) =
            financialRecords
              (fold (\<lambda>r. addFinancialRecord e (financialRow r)) (filter hasDate rows) dm)
        \<and> set (map fr_date (financialRecords (snd (importFromExcel e (Inr wb) dm)))) =
            set (map fr_date (financialRecords dm)) \<union> rowDate ` set (filter hasDate rows))
   \<and> (sheetOf wb ''Financial Records'' ''Financials'' = None \<longrightarrow>
        financialRecords (snd (importFromExcel e (Inr wb) dm)) = financialRecords dm)
   \<and> (\<forall>rows.
        sheetOf wb ''KPIs'' ''Metrics'' = Some rows
        \<and> (\<forall>r \<in> set rows.
              textual r [''Metric'', ''metric'', ''Unit'', ''unit'', ''Category'', ''category''])
        \<and> 0 < indicatorCount wb \<longrightarrow>
        length (kpiData (snd (importFromExcel e (Inr wb) dm))) = indicatorCount wb
        \<and> kpiData (snd (importFromExcel e (Inr wb) dm)) = sheetKPIs rows)
   \<and> (indicatorCount wb = 0 \<longrightarrow>
        kpiData (snd (importFromExcel e (Inr wb) dm)) = kpiData dm)"
proof (intro conjI allI impI)
  show "fst (importFromExcel e (Inr wb) dm) =
     \<lparr>success = True,
      message = ''Successfully imported ''
        @ numToString (int (profileRowCount wb + recordRowCount wb + indicatorCount wb))
        @ '' records''\<rparr>"
    by (rule importFromExcel_message)
next
  assume "sheetOf wb ''Business Data'' ''Company'' = None
      \<and> sheetOf wb ''Financial Records'' ''Financials'' = None
      \<and> sheetOf wb ''KPIs'' ''Metrics'' = None"
  then show "fst (importFromExcel e (Inr wb) dm) =
        \<lparr>success = True, message = ''Successfully imported 0 records''\<rparr>"
    and "snd (importFromExcel e (Inr wb) dm) = dm"
    by (simp_all add: importFromExcel_message importFromExcel_store profileRowCount_def
        recordRowCount_def indicatorCount_def numToString_small)
next
  fix r rest
  assume "sheetOf wb ''Business Data'' ''Company'' = Some (r # rest)
        \<and> textual r [''Company Name'', ''companyName'', ''Industry'', ''industry'']"
  then have sh: "sheetOf wb ''Business Data'' ''Company'' = Some (r # rest)" by simp
  then show "profileRowCount wb = 1" by (simp add: profileRowCount_def)
  have "businessData (snd (importFromExcel e (Inr wb) dm))
      = businessData (setBusinessData e (businessRow r) dm)"
    by (simp add: importFromExcel_store sh Let_def split: option.splits)
  then show "businessData (snd (importFromExcel e (Inr wb) dm)) =
            Some \<lparr>bd_id = generateId e,
              bd_companyName =
                orString (cellText (cellOr (map_of r ''Company Name'') (map_of r ''companyName''))) [],
              bd_industry =
                orString (cellText (cellOr (map_of r ''Industry'') (map_of r ''industry''))) [],
              bd_employees =
                cellNumberOrZero (cellOr (map_of r ''Employees'') (map_of r ''employees'')),
              bd_revenue = cellNumberOrZero (cellOr (map_of r ''Revenue'') (map_of r ''revenue'')),
              bd_costs = cellNumberOrZero (cellOr (map_of r ''Costs'') (map_of r ''costs'')),
              bd_assets = cellNumberOrZero (cellOr (map_of r ''Assets'') (map_of r ''assets'')),
              bd_liabilities =
                cellNumberOrZero (cellOr (map_of r ''Liabilities'') (map_of r ''liabilities'')),
              bd_cashFlow =
                cellNumberOrZero (cellOr (map_of r ''Cash Flow'') (map_of r ''cashFlow'')),
              bd_createdAt = env_now e,
              bd_updatedAt = env_now e\<rparr>"
    by (simp only: setBusinessData_businessRow)
next
  assume "profileRowCount wb = 0"
  then show "businessData (snd (importFromExcel e (Inr wb) dm)) = businessData dm"
    by (simp add: importFromExcel_store profileRowCount_def Let_def
        split: option.splits list.splits if_splits)
next
  fix rows
  assume "sheetOf wb ''Financial Records'' ''Financials'' = Some rows
        \<and> (\<forall>r \<in> set rows. textual r [''Date'', ''date''])"
  then have sh: "sheetOf wb ''Financial Records'' ''Financials'' = Some rows" by simp
  then show "recordRowCount wb = length (filter hasDate rows)"
    by (simp add: recordRowCount_def)
  show fr: "financialRecords (snd (importFromExcel e (Inr wb) dm)) =
            financialRecords
              (fold (\<lambda>r. addFinancialRecord e (financialRow r)) (filter hasDate rows) dm)"
    by (simp add: importFromExcel_store sh Let_def fold_addFinancialRecord_steps
        split: option.splits list.splits)
  have "(\<lambda>r. fr_date (inputRecord e (financialRow r))) ` set (filter hasDate rows)
      = rowDate ` set (filter hasDate rows)"
    by (intro image_cong) (simp_all add: hasDate_rowDate)
  then show "set (map fr_date (financialRecords (snd (importFromExcel e (Inr wb) dm)))) =
            set (map fr_date (financialRecords dm)) \<union> rowDate ` set (filter hasDate rows)"
    unfolding fr fold_addFinancialRecord_steps set_map fold_addStep_dates by simp
next
  assume "sheetOf wb ''Financial Records'' ''Financials'' = None"
  then show "financialRecords (snd (importFromExcel e (Inr wb) dm)) = financialRecords dm"
    by (simp add: importFromExcel_store Let_def split: option.splits list.splits)
next
  fix rows
  assume a: "sheetOf wb ''KPIs'' ''Metrics'' = Some rows
        \<and> (\<forall>r \<in> set rows.
              textual r [''Metric'', ''metric'', ''Unit'', ''unit'', ''Category'', ''category''])
        \<and> 0 < indicatorCount wb"
  then have k: "kpiData (snd (importFromExcel e (Inr wb) dm)) = sheetKPIs rows"
    by (auto simp: importFromExcel_kpiData indicatorCount_def)
  then show "kpiData (snd (importFromExcel e (Inr wb) dm)) = sheetKPIs rows" .
  from a k show "length (kpiData (snd (importFromExcel e (Inr wb) dm))) = indicatorCount wb"
    by (simp add: indicatorCount_def)
next
  assume "indicatorCount wb = 0"
  then show "kpiData (snd (importFromExcel e (Inr wb) dm)) = kpiData dm"
    by (simp add: importFromExcel_kpiData indicatorCount_def split: option.splits)
qed

lemma sampleWorkbook_sheets:
  "sheetOf sampleWorkbook ''Business Data'' ''Company''
     = Some [[(''Company Name'', CText ''Acme''), (''Revenue'', CNum 1000)]]"
  "sheetOf sampleWorkbook ''Financial Records'' ''Financials''
     = Some [[(''Date'', CText ''2024-01-01''), (''Revenue'', CNum 100)], [(''Revenue'', CNum 5)]]"
  "sheetOf sampleWorkbook ''KPIs'' ''Metrics''
     = Some [[(''Metric'', CText ''NPS''), (''Value'', CNum 40), (''Target'', CNum 50)],
             [(''Value'', CNum 7)]]"
  by (simp_all add: sheetOf_def sampleWorkbook_def)

lemma sampleWorkbook_kpis:
  "sheetKPIs [[(''Metric'', CText ''NPS''), (''Value'', CNum 40), (''Target'', CNum 50)],
              [(''Value'', CNum 7)]]
   = [\<lparr>kpi_metric = ''NPS'', kpi_value = 40, kpi_target = 50, kpi_unit = [],
        kpi_category = ''operational''\<rparr>]"
  by (simp add: sheetKPIs_def kpiRow_def cellOr_def truthy_def cellText_def orString_def
      cellNumberOrZero_def orNumber_def)

lemma sampleWorkbook_counts:
  "profileRowCount sampleWorkbook = 1" "recordRowCount sampleWorkbook = 1"
  "indicatorCount sampleWorkbook = 1"
  by (simp_all add: profileRowCount_def recordRowCount_def indicatorCount_def
      sampleWorkbook_sheets sampleWorkbook_kpis hasDate_def cellOr_def truthy_def)

lemma notesWorkbook_counts:
  "profileRowCount notesWorkbook = 0" "recordRowCount notesWorkbook = 0"
  "indicatorCount notesWorkbook = 0"
  by (simp_all add: profileRowCount_def recordRowCount_def indicatorCount_def sheetOf_def
      notesWorkbook_def)

lemma notesWorkbook_sheets:
  "sheetOf notesWorkbook ''Business Data'' ''Company'' = None"
  "sheetOf notesWorkbook ''Financial Records'' ''Financials'' = None"
  "sheetOf notesWorkbook ''KPIs'' ''Metrics'' = None"
  by (simp_all add: sheetOf_def notesWorkbook_def)

lemma sampleWorkbook_textual:
  "textual [(''Company Name'', CText ''Acme''), (''Revenue'', CNum 1000)]
     [''Company Name'', ''companyName'', ''Industry'', ''industry'']"
  "\<forall>r \<in> set [[(''Date'', CText ''2024-01-01''), (''Revenue'', CNum 100)], [(''Revenue'', CNum 5)]].
     textual r [''Date'', ''date'']"
  "\<forall>r \<in> set [[(''Metric'', CText ''NPS''), (''Value'', CNum 40), (''Target'', CNum 50)],
              [(''Value'', CNum 7)]].
     textual r [''Metric'', ''metric'', ''Unit'', ''unit'', ''Category'', ''category'']"
  by (simp_all add: textual_def)

lemma sampleWorkbook_dated:
  "filter hasDate [[(''Date'', CText ''2024-01-01''), (''Revenue'', CNum 100)], [(''Revenue'', CNum 5)]]
   = [[(''Date'', CText ''2024-01-01''), (''Revenue'', CNum 100)]]"
  by (simp add: hasDate_def cellOr_def truthy_def)

lemma sampleWorkbook_record:
  "financialRecords (addFinancialRecord sampleEnv
      (financialRow [(''Date'', CText ''2024-01-01''), (''Revenue'', CNum 100)]) emptyStore)
   = [\<lparr>fr_date = ''2024-01-01'', fr_revenue = 100, fr_expenses = 0, fr_profit = 0,
        fr_cashFlow = 0\<rparr>]"
  by (simp add: addFinancialRecord_records addStep_def arraySort_def emptyStore_fields
      inputRecord_def financialRow_def cellOr_def truthy_def cellText_def orString_def
      cellNumberOrZero_def orNumber_def)

theorem importFromExcel_count_witness:
  "sheetOf notesWorkbook ''Business Data'' ''Company'' = None
   \<and> sheetOf notesWorkbook ''Financial Records'' ''Financials'' = None
   \<and> sheetOf notesWorkbook ''KPIs'' ''Metrics'' = None
   \<and> importFromExcel sampleEnv (Inr notesWorkbook) acmeStore =
        (\<lparr>success = True, message = ''Successfully imported 0 records''\<rparr>, acmeStore)
   \<and> sheetOf sampleWorkbook ''Business Data'' ''Company''
        = Some [[(''Company Name'', CText ''Acme''), (''Revenue'', CNum 1000)]]
   \<and> textual [(''Company Name'', CText ''Acme''), (''Revenue'', CNum 1000)]
        [''Company Name'', ''companyName'', ''Industry'', ''industry'']
   \<and> sheetOf sampleWorkbook ''Financial Records'' ''Financials''
        = Some [[(''Date'', CText ''2024-01-01''), (''Revenue'', CNum 100)], [(''Revenue'', CNum 5)]]
   \<and> textual [(''Date'', CText ''2024-01-01''), (''Revenue'', CNum 100)] [''Date'', ''date'']
   \<and> textual [(''Revenue'', CNum 5)] [''Date'', ''date'']
   \<and> 0 < indicatorCount sampleWorkbook
   \<and> fst (importFromExcel sampleEnv (Inr sampleWorkbook) emptyStore) =
        \<lparr>success = True, message = ''Successfully imported 3 records''\<rparr>
   \<and> businessData (snd (importFromExcel sampleEnv (Inr sampleWorkbook) emptyStore)) =
        Some \<lparr>bd_id = ''lx8kuby84fzzzxjylrx'', bd_companyName = ''Acme'', bd_industry = [],
              bd_employees = 0, bd_revenue = 1000, bd_costs = 0, bd_assets = 0,
              bd_liabilities = 0, bd_cashFlow = 0, bd_createdAt = 1718000000000,
              bd_updatedAt = 1718000000000\<rparr>
   \<and> financialRecords (snd (importFromExcel sampleEnv (Inr sampleWorkbook) emptyStore)) =
        [\<lparr>fr_date = ''2024-01-01'', fr_revenue = 100, fr_expenses = 0, fr_profit = 0,
           fr_cashFlow = 0\<rparr>]
   \<and> kpiData (snd (importFromExcel sampleEnv (Inr sampleWorkbook) emptyStore)) =
        [\<lparr>kpi_metric = ''NPS'', kpi_value = 40, kpi_target = 50, kpi_unit = [],
           kpi_category = ''operational''\<rparr>]"
proof -
  note t = importFromExcel_count [of sampleEnv sampleWorkbook emptyStore]
  note n = importFromExcel_count [of sampleEnv notesWorkbook acmeStore]
  from n notesWorkbook_sheets
  have a: "importFromExcel sampleEnv (Inr notesWorkbook) acmeStore =
        (\<lparr>success = True, message = ''Successfully imported 0 records''\<rparr>, acmeStore)"
    by (simp add: prod_eq_iff notesWorkbook_counts numToString_small)
  from t have b: "fst (importFromExcel sampleEnv (Inr sampleWorkbook) emptyStore) =
        \<lparr>success = True, message = ''Successfully imported 3 records''\<rparr>"
    by (simp add: sampleWorkbook_counts numToString_small)
  from t sampleWorkbook_sheets(1) sampleWorkbook_textual(1)
  have c: "businessData (snd (importFromExcel sampleEnv (Inr sampleWorkbook) emptyStore)) =
        Some \<lparr>bd_id = ''lx8kuby84fzzzxjylrx'', bd_companyName = ''Acme'', bd_industry = [],
              bd_employees = 0, bd_revenue = 1000, bd_costs = 0, bd_assets = 0,
              bd_liabilities = 0, bd_cashFlow = 0, bd_createdAt = 1718000000000,
              bd_updatedAt = 1718000000000\<rparr>"
    by (simp add: generateId_sampleEnv cellOr_def truthy_def cellText_def orString_def
        cellNumberOrZero_def orNumber_def) (simp add: sampleEnv_def)
  from t sampleWorkbook_sheets(2) sampleWorkbook_textual(2)
  have "financialRecords (snd (importFromExcel sampleEnv (Inr sampleWorkbook) emptyStore)) =
        financialRecords
          (fold (\<lambda>r. addFinancialRecord sampleEnv (financialRow r))
            (filter hasDate
              [[(''Date'', CText ''2024-01-01''), (''Revenue'', CNum 100)], [(''Revenue'', CNum 5)]])
            emptyStore)"
    by blast
  then have d: "financialRecords (snd (importFromExcel sampleEnv (Inr sampleWorkbook) emptyStore)) =
        [\<lparr>fr_date = ''2024-01-01'', fr_revenue = 100, fr_expenses = 0, fr_profit = 0,
           fr_cashFlow = 0\<rparr>]"
    by (simp only: sampleWorkbook_dated fold_simps id_apply comp_apply sampleWorkbook_record)
  have i: "0 < indicatorCount sampleWorkbook" by (simp add: sampleWorkbook_counts)
  from t sampleWorkbook_sheets(3) sampleWorkbook_textual(3) i
  have "kpiData (snd (importFromExcel sampleEnv (Inr sampleWorkbook) emptyStore)) =
        sheetKPIs [[(''Metric'', CText ''NPS''), (''Value'', CNum 40), (''Target'', CNum 50)],
                   [(''Value'', CNum 7)]]"
    by blast
  then have f: "kpiData (snd (importFromExcel sampleEnv (Inr sampleWorkbook) emptyStore)) =
        [\<lparr>kpi_metric = ''NPS'', kpi_value = 40, kpi_target = 50, kpi_unit = [],
           kpi_category = ''operational''\<rparr>]"
    by (simp only: sampleWorkbook_kpis)
  from a b c d f i notesWorkbook_sheets sampleWorkbook_sheets(1,2) sampleWorkbook_textual
  show ?thesis by simp
qed

text \<open>
  C10. When the workbook has an indicators sheet: if some row has a non-empty metric
  name, the indicator collection afterwards is exactly the rows with a non-empty metric
  name, in sheet order, and nothing of the earlier collection remains; if every row has
  an empty metric name, the indicator collection is what it was.
\<close>

theorem importFromExcel_replaces_indicators:
  assumes "sheetOf wb ''KPIs'' ''Metrics'' = Some rows"
  shows "((\<exists>r \<in> set rows. kpi_metric (kpiRow r) \<noteq> []) \<longrightarrow>
            kpiData (snd (importFromExcel e (Inr wb) dm))
              = filter (\<lambda>kpi. kpi_metric kpi \<noteq> []) (map kpiRow rows))
       \<and> ((\<forall>r \<in> set rows. kpi_metric (kpiRow r) = []) \<longrightarrow>
            kpiData (snd (importFromExcel e (Inr wb) dm)) = kpiData dm)"
  using assms
  by (auto simp: importFromExcel_kpiData sheetKPIs_def filter_empty_conv)

lemma unnamedKpiWorkbook_sheet:
  "sheetOf unnamedKpiWorkbook ''KPIs'' ''Metrics''
     = Some [[(''Value'', CNum 7)], [(''Metric'', CText [])]]"
  by (simp add: sheetOf_def unnamedKpiWorkbook_def)

lemma unnamed_rows:
  "kpi_metric (kpiRow [(''Value'', CNum 7)]) = []"
  "kpi_metric (kpiRow [(''Metric'', CText [])]) = []"
  "kpi_metric (kpiRow [(''Metric'', CText ''NPS''), (''Value'', CNum 40), (''Target'', CNum 50)])
     = ''NPS''"
  by (simp_all add: kpiRow_def cellOr_def truthy_def cellText_def orString_def)

theorem importFromExcel_replaces_indicators_witness:
  "kpiData (addKPI churn emptyStore) = [churn]
   \<and> sheetOf sampleWorkbook ''KPIs'' ''Metrics''
       = Some [[(''Metric'', CText ''NPS''), (''Value'', CNum 40), (''Target'', CNum 50)],
               [(''Value'', CNum 7)]]
   \<and> kpi_metric (kpiRow [(''Metric'', CText ''NPS''), (''Value'', CNum 40), (''Target'', CNum 50)])
       \<noteq> []
   \<and> kpiData (snd (importFromExcel sampleEnv (Inr sampleWorkbook) (addKPI churn emptyStore)))
       = [\<lparr>kpi_metric = ''NPS'', kpi_value = 40, kpi_target = 50, kpi_unit = [],
            kpi_category = ''operational''\<rparr>]
   \<and> sheetOf unnamedKpiWorkbook ''KPIs'' ''Metrics''
       = Some [[(''Value'', CNum 7)], [(''Metric'', CText [])]]
   \<and> kpi_metric (kpiRow [(''Value'', CNum 7)]) = []
   \<and> kpi_metric (kpiRow [(''Metric'', CText [])]) = []
   \<and> kpiData (snd (importFromExcel sampleEnv (Inr unnamedKpiWorkbook) (addKPI churn emptyStore)))
       = [churn]"
proof -
  have k: "kpiData (addKPI churn emptyStore) = [churn]"
    by (simp add: addKPI_kpiData emptyStore_fields)
  from importFromExcel_replaces_indicators
    [OF sampleWorkbook_sheets(3), of sampleEnv "addKPI churn emptyStore"] unnamed_rows
  have a: "kpiData (snd (importFromExcel sampleEnv (Inr sampleWorkbook) (addKPI churn emptyStore)))
       = [\<lparr>kpi_metric = ''NPS'', kpi_value = 40, kpi_target = 50, kpi_unit = [],
            kpi_category = ''operational''\<rparr>]"
    using sampleWorkbook_kpis by (simp add: sheetKPIs_def)
  from importFromExcel_replaces_indicators
    [OF unnamedKpiWorkbook_sheet, of sampleEnv "addKPI churn emptyStore"] unnamed_rows k
  have b: "kpiData (snd (importFromExcel sampleEnv (Inr unnamedKpiWorkbook) (addKPI churn emptyStore)))
       = [churn]"
    by simp
  from k a b unnamed_rows sampleWorkbook_sheets(3) unnamedKpiWorkbook_sheet show ?thesis
    by simp
qed

end
